theory Spec2Isabelle
  imports Main "HOL-Library.Multiset" "HOL-Library.Monad_Syntax"
begin

section \<open>Strings and numbers of the schedule builder\<close>

text \<open>
  The schedule builder (\<^verbatim>\<open>src/unnamed/part_001\<close>) works on JavaScript strings. A string
  is modelled as a \<^typ>\<open>string\<close> whose characters are the code units below 256; every
  string the builder writes itself is of that kind. The character classes are those of
  the source's regular expressions: \<^verbatim>\<open>\d\<close>, \<^verbatim>\<open>[A-Za-z]\<close> and \<^verbatim>\<open>\s\<close> (which, below 256,
  is tab, line feed, vertical tab, form feed, carriage return, space and no-break space;
  \<^verbatim>\<open>trim\<close> strips the same characters).
\<close>

definition isDigit :: "char \<Rightarrow> bool" where
  "isDigit c = (c \<in> set ''0123456789'')"

definition isLetter :: "char \<Rightarrow> bool" where
  "isLetter c = (c \<in> set ''ABCDEFGHIJKLMNOPQRSTUVWXYZabcdefghijklmnopqrstuvwxyz'')"

definition isSpace :: "char \<Rightarrow> bool" where
  "isSpace c = (c \<in> {CHR 0x09, CHR 0x0A, CHR 0x0B, CHR 0x0C, CHR 0x0D, CHR 0x20, CHR 0xA0})"

definition trim :: "string \<Rightarrow> string" where
  "trim s = rev (dropWhile isSpace (rev (dropWhile isSpace s)))"

text \<open>
  \<^verbatim>\<open>toUpperCase\<close> is only ever applied to a capture of \<^verbatim>\<open>[A-Za-z]+\<close> or of
  \<^verbatim>\<open>AM|PM\<close>, so the mapping of the ASCII letters is all of it that the program uses.
\<close>

definition upperChar :: "char \<Rightarrow> char" where
  "upperChar c = (case map_of (zip ''abcdefghijklmnopqrstuvwxyz'' ''ABCDEFGHIJKLMNOPQRSTUVWXYZ'') c of
                    Some u \<Rightarrow> u | None \<Rightarrow> c)"

definition toUpperCase :: "string \<Rightarrow> string" where
  "toUpperCase s = map upperChar s"

text \<open>\<^verbatim>\<open>s.split(c)\<close> for a one-character separator: never an empty array.\<close>

fun split_on :: "char \<Rightarrow> string \<Rightarrow> string list" where
  "split_on c [] = [[]]"
| "split_on c (x # xs) =
     (if x = c then [] # split_on c xs
      else (case split_on c xs of p # ps \<Rightarrow> (x # p) # ps | [] \<Rightarrow> [[x]]))"

text \<open>
  Numbers. The builder only holds integers or \<^verbatim>\<open>NaN\<close>; a number is an
  \<^typ>\<open>int option\<close>, \<^const>\<open>None\<close> being \<^verbatim>\<open>NaN\<close>. (A JavaScript number is a double,
  exact on integers below \<open>2\<^sup>5\<^sup>3\<close>; the hours and minutes of a time have two digits.)
\<close>

type_synonym jsnum = "int option"

definition digitVal :: "char \<Rightarrow> int" where
  "digitVal c = (case map_of (zip ''0123456789'' [0, 1, 2, 3, 4, 5, 6, 7, 8, 9]) c of
                   Some v \<Rightarrow> v | None \<Rightarrow> 0)"

definition digitsVal :: "string \<Rightarrow> int" where
  "digitsVal ds = foldl (\<lambda>acc c. 10 * acc + digitVal c) 0 ds"

text \<open>
  \<^verbatim>\<open>parseInt(s, 10)\<close>: leading white space is skipped, one sign is read, then the
  longest run of digits; no digit at all gives \<^verbatim>\<open>NaN\<close>.
\<close>

definition parseInt :: "string \<Rightarrow> jsnum" where
  "parseInt s =
     (let t = dropWhile isSpace s;
          neg = (case t of c # _ \<Rightarrow> c = CHR ''-'' | [] \<Rightarrow> False);
          u = (case t of c # r \<Rightarrow> if c = CHR ''-'' \<or> c = CHR ''+'' then r else t | [] \<Rightarrow> t);
          ds = takeWhile isDigit u
      in if ds = [] then None
         else Some (if neg then - digitsVal ds else digitsVal ds))"

definition digitChar :: "nat \<Rightarrow> char" where
  \<comment> \<open>the digit of a number below 10\<close>
  "digitChar n = ''0123456789'' ! n"

fun showNat :: "nat \<Rightarrow> string" where
  "showNat n = (if n < 10 then [digitChar n] else showNat (n div 10) @ [digitChar (n mod 10)])"

declare showNat.simps [simp del]

text \<open>\<^verbatim>\<open>String(x)\<close> of a number, as a template literal or \<^verbatim>\<open>toString\<close> renders it.\<close>

definition showNum :: "jsnum \<Rightarrow> string" where
  "showNum x = (case x of None \<Rightarrow> ''NaN''
                | Some i \<Rightarrow> if i < 0 then CHR ''-'' # showNat (nat (- i)) else showNat (nat i))"

text \<open>The remainder \<^verbatim>\<open>a % b\<close> takes the sign of the dividend.\<close>

definition jsRem :: "int \<Rightarrow> int \<Rightarrow> int" where
  "jsRem a b = sgn a * (\<bar>a\<bar> mod \<bar>b\<bar>)"

definition padStart2 :: "string \<Rightarrow> string" where
  "padStart2 s = replicate (2 - length s) CHR ''0'' @ s"

section \<open>Time conversion\<close>

text \<open>
  \<^verbatim>\<open>formatTimeForSchedule\<close>: 24-hour \<^verbatim>\<open>HH:MM\<close> to 12-hour \<^verbatim>\<open>H:MM AM|PM\<close>. The two names
  of the destructuring are the first two pieces of the split; a missing second piece
  is \<^verbatim>\<open>undefined\<close> and is rendered so.
\<close>

definition formatTimeForSchedule :: "string \<Rightarrow> string" where
  "formatTimeForSchedule timeString =
     (if timeString = [] then []
      else case split_on CHR '':'' timeString of
        [] \<Rightarrow> []
      | hours # rest \<Rightarrow>
          (let minutes = (case rest of [] \<Rightarrow> ''undefined'' | m # _ \<Rightarrow> m);
               hour = parseInt hours;
               suffix = (case hour of Some h \<Rightarrow> if h \<ge> 12 then ''PM'' else ''AM''
                         | None \<Rightarrow> ''AM'');
               displayHour = (case hour of
                                Some h \<Rightarrow> if jsRem h 12 = 0 then Some 12 else Some (jsRem h 12)
                              | None \<Rightarrow> None)
           in showNum displayHour @ '':'' @ minutes @ '' '' @ suffix))"

text \<open>
  The pieces of the two regular expressions. Each quantified piece is followed by a
  character it cannot itself match (letters by white space, white space by a digit, a
  letter or the dash, the hour digits by the colon), so the greedy match is the only
  one and no backtracking can find another.
\<close>

definition digits12 :: "string \<Rightarrow> (string \<times> string) option" where
  \<comment> \<open>\<^verbatim>\<open>\d{1,2}\<close> before a character that is no digit\<close>
  "digits12 s = (let ds = takeWhile isDigit s in
     if length ds = 1 \<or> length ds = 2 then Some (ds, dropWhile isDigit s) else None)"

definition digits2 :: "string \<Rightarrow> (string \<times> string) option" where
  \<comment> \<open>\<^verbatim>\<open>\d{2}\<close>\<close>
  "digits2 s = (case s of a # b # r \<Rightarrow> if isDigit a \<and> isDigit b then Some ([a, b], r) else None
                | _ \<Rightarrow> None)"

definition lit :: "char \<Rightarrow> string \<Rightarrow> string option" where
  "lit c s = (case s of x # r \<Rightarrow> if x = c then Some r else None | [] \<Rightarrow> None)"

definition ampm :: "string \<Rightarrow> (string \<times> string) option" where
  \<comment> \<open>\<^verbatim>\<open>(AM|PM)\<close> under the flag \<^verbatim>\<open>i\<close>\<close>
  "ampm s = (case s of a # b # r \<Rightarrow>
               if a \<in> set ''AaPp'' \<and> b \<in> set ''Mm'' then Some ([a, b], r) else None
             | _ \<Rightarrow> None)"

text \<open>\<^verbatim>\<open>/^(\d{1,2}):(\d{2})\s*(AM|PM)$/i\<close>, the captures 1 to 3.\<close>

definition match_time12 :: "string \<Rightarrow> (string \<times> string \<times> string) option" where
  "match_time12 s = do {
     (h, s1) \<leftarrow> digits12 s;
     s2 \<leftarrow> lit CHR '':'' s1;
     (m, s3) \<leftarrow> digits2 s2;
     (ap, s4) \<leftarrow> ampm (dropWhile isSpace s3);
     if s4 = [] then Some (h, m, ap) else None
   }"

text \<open>
  \<^verbatim>\<open>parse12HourTime\<close>: 12-hour to 24-hour; the empty string reports a failure. No
  statement of its \<^verbatim>\<open>try\<close> block can throw, so the \<^verbatim>\<open>catch\<close> has no branch here.
\<close>

definition parse12HourTime :: "string \<Rightarrow> string" where
  "parse12HourTime timeStr0 =
     (let timeStr = trim timeStr0 in
      case match_time12 timeStr of
        None \<Rightarrow> []
      | Some (p1, p2, p3) \<Rightarrow>
          (let hours = parseInt p1;
               minutes = p2;
               ap = toUpperCase p3;
               hours' = (case hours of None \<Rightarrow> None
                         | Some h \<Rightarrow> if ap = ''PM'' \<and> h < 12 then Some (h + 12)
                                     else if ap = ''AM'' \<and> h = 12 then Some 0
                                     else Some h)
           in padStart2 (showNum hours') @ '':'' @ minutes))"

section \<open>The slot list\<close>

text \<open>
  A time slot is the object literal that the click handler and the parser build; the
  parser's literal has no \<^verbatim>\<open>isOvernight\<close>. The module's state is its three globals
  \<^verbatim>\<open>timeSlots\<close>, \<^verbatim>\<open>selectedDays\<close> (a \<^verbatim>\<open>Set\<close>: its elements in insertion order) and
  \<^verbatim>\<open>timeSlotCounter\<close>, and of the page the hidden field \<^verbatim>\<open>#schedule\<close>;
  \<open>domPresent\<close> says that \<^verbatim>\<open>#scheduleDisplay\<close> and \<^verbatim>\<open>#schedule\<close> exist. The markup written
  into \<^verbatim>\<open>#scheduleDisplay\<close> is not part of the model.
\<close>

record slot =
  slot_id :: string
  days :: "string list"
  startTime :: string
  endTime :: string
  isOvernight :: "bool option"

record builder =
  timeSlots :: "slot list"
  selectedDays :: "string list"
  timeSlotCounter :: nat
  domPresent :: bool
  scheduleField :: string

text \<open>
  The state in which \<^verbatim>\<open>setupScheduleBuilder\<close> starts on a page that has the builder
  (\<^verbatim>\<open>timeSlots = []\<close>, \<^verbatim>\<open>selectedDays = new Set()\<close>, \<^verbatim>\<open>timeSlotCounter = 0\<close>).
\<close>

definition resetState :: builder where
  "resetState = \<lparr>timeSlots = [], selectedDays = [], timeSlotCounter = 0,
                  domPresent = True, scheduleField = []\<rparr>"

section \<open>The formatter\<close>

definition dayOrder :: "string \<Rightarrow> int option" where
  "dayOrder = map_of [(''M'', 0), (''T'', 1), (''W'', 2), (''Th'', 3), (''F'', 4), (''S'', 5), (''Su'', 6)]"

text \<open>
  The comparator \<^verbatim>\<open>(a, b) => dayOrder[a] - dayOrder[b]\<close>: a day that is no key of the
  table makes the difference \<^verbatim>\<open>NaN\<close>, which \<^verbatim>\<open>sort\<close> takes for 0.
\<close>

definition compareDays :: "string \<Rightarrow> string \<Rightarrow> jsnum" where
  "compareDays a b = (case (dayOrder a, dayOrder b) of
                        (Some x, Some y) \<Rightarrow> Some (x - y)
                      | _ \<Rightarrow> None)"

definition sortCompare :: "string \<Rightarrow> string \<Rightarrow> int" where
  "sortCompare a b = (case compareDays a b of Some v \<Rightarrow> v | None \<Rightarrow> 0)"

text \<open>
  \<^verbatim>\<open>Array.prototype.sort\<close> is stable, and sorts the array in place. When the comparator
  orders the elements consistently (as it does when all of them are keys of the table,
  and when no two of them are keys of different places), the result is the one stable
  sorted arrangement, which insertion computes. Otherwise the language leaves the order
  to the engine, and insertion is one engine among others (of W, M, TH, T it makes
  M, W, TH, T, where V8 makes M, T, W, TH); statements about the order are made for the
  seven day codes only, and the others hold for every arrangement.
\<close>

fun insertDay :: "string \<Rightarrow> string list \<Rightarrow> string list" where
  "insertDay x [] = [x]"
| "insertDay x (y # ys) = (if sortCompare x y \<le> 0 then x # y # ys else y # insertDay x ys)"

definition sortDays :: "string list \<Rightarrow> string list" where
  "sortDays xs = foldr insertDay xs []"

fun join :: "string \<Rightarrow> string list \<Rightarrow> string" where
  "join sep [] = []"
| "join sep [x] = x"
| "join sep (x # y # ys) = x @ sep @ join sep (y # ys)"

text \<open>
  The body of the \<^verbatim>\<open>map\<close> callback in \<^verbatim>\<open>formatSchedule\<close>: the text of one slot, and the
  slot as the in-place sort of its \<^verbatim>\<open>days\<close> leaves it.
\<close>

definition formatSlot :: "slot \<Rightarrow> string \<times> slot" where
  "formatSlot sl =
     (let sortedDays = sortDays (days sl);
          daysText = join [] sortedDays;
          startTimeFormatted = formatTimeForSchedule (startTime sl);
          endTimeFormatted = formatTimeForSchedule (endTime sl)
      in (daysText @ '' '' @ startTimeFormatted @ ''-'' @ endTimeFormatted,
          sl\<lparr>days := sortedDays\<rparr>))"

definition formatSchedule :: "builder \<Rightarrow> string \<times> builder" where
  "formatSchedule st =
     (if timeSlots st = [] then ([], st)
      else (let rs = map formatSlot (timeSlots st)
            in (join '', '' (map fst rs), st\<lparr>timeSlots := map snd rs\<rparr>)))"

definition updateScheduleDisplay :: "builder \<Rightarrow> builder" where
  "updateScheduleDisplay st =
     (if \<not> domPresent st then st
      else if timeSlots st = [] then st\<lparr>scheduleField := []\<rparr>
      else (let (formattedSchedule, st') = formatSchedule st
            in st'\<lparr>scheduleField := formattedSchedule\<rparr>))"

definition addTimeSlot :: "slot \<Rightarrow> builder \<Rightarrow> builder" where
  "addTimeSlot sl st = updateScheduleDisplay (st\<lparr>timeSlots := timeSlots st @ [sl]\<rparr>)"

definition removeTimeSlot :: "string \<Rightarrow> builder \<Rightarrow> builder" where
  "removeTimeSlot slotId st =
     updateScheduleDisplay (st\<lparr>timeSlots := filter (\<lambda>sl. slot_id sl \<noteq> slotId) (timeSlots st)\<rparr>)"

section \<open>The click handler of the add button\<close>

text \<open>
  \<^verbatim>\<open>Number\<close> on a piece of a time: the empty piece is 0 and a run of digits is its value
  (white space around it is ignored). A time field holds nothing else; the literals
  with a sign, a fraction, an exponent or a radix prefix, which \<^verbatim>\<open>Number\<close> would also
  read, are taken for \<^verbatim>\<open>NaN\<close> like every other string, and no statement below is made
  about them.
\<close>

definition toNumber :: "string \<Rightarrow> jsnum" where
  "toNumber s = (let t = trim s in
     if t = [] then Some 0 else if list_all isDigit t then Some (digitsVal t) else None)"

text \<open>
  \<^verbatim>\<open>const [h, m] = t.split(':').map(Number); h * 60 + m\<close>: a missing piece is
  \<^verbatim>\<open>undefined\<close> and the sum \<^verbatim>\<open>NaN\<close>.
\<close>

definition totalMinutes :: "string \<Rightarrow> jsnum" where
  "totalMinutes t = (case map toNumber (split_on CHR '':'' t) of
                       Some h # Some m # _ \<Rightarrow> Some (h * 60 + m)
                     | _ \<Rightarrow> None)"

text \<open>Comparisons of numbers: false as soon as one side is \<^verbatim>\<open>NaN\<close>.\<close>

definition numLess :: "jsnum \<Rightarrow> jsnum \<Rightarrow> bool" where
  "numLess a b = (case (a, b) of (Some x, Some y) \<Rightarrow> x < y | _ \<Rightarrow> False)"

definition numLessEq :: "jsnum \<Rightarrow> jsnum \<Rightarrow> bool" where
  "numLessEq a b = (case (a, b) of (Some x, Some y) \<Rightarrow> x \<le> y | _ \<Rightarrow> False)"

datatype outcome = Warning string | Added

text \<open>
  The listener of \<^verbatim>\<open>addTimeBtn\<close>, on the values of the two time fields. It returns
  what it showed and the state it leaves.
\<close>

definition addTimeBtn_click :: "string \<Rightarrow> string \<Rightarrow> builder \<Rightarrow> outcome \<times> builder" where
  "addTimeBtn_click startValue endValue st =
     (let startTime = trim startValue;
          endTime = trim endValue
      in if startTime = [] \<or> endTime = [] then
           (Warning ''Please select both start and end times.'', st)
         else if selectedDays st = [] then
           (Warning ''Please select at least one day.'', st)
         else
           (let startTotalMinutes = totalMinutes startTime;
                endTotalMinutes = totalMinutes endTime;
                isOvernight = numLess endTotalMinutes startTotalMinutes
            in if \<not> isOvernight \<and> numLessEq endTotalMinutes startTotalMinutes then
                 (Warning ''End time must be after start time.'', st)
               else
                 (let sl = \<lparr>slot_id = ''slot_'' @ showNat (timeSlotCounter st),
                            days = selectedDays st,
                            startTime = startTime,
                            endTime = endTime,
                            isOvernight = Some isOvernight\<rparr>;
                      st1 = addTimeSlot sl (st\<lparr>timeSlotCounter := Suc (timeSlotCounter st)\<rparr>)
                  in (Added, st1\<lparr>selectedDays := []\<rparr>))))"

section \<open>The parser\<close>

definition letters1 :: "string \<Rightarrow> (string \<times> string) option" where
  \<comment> \<open>\<^verbatim>\<open>([A-Za-z]+)\<close>\<close>
  "letters1 s = (let l = takeWhile isLetter s in
     if l = [] then None else Some (l, dropWhile isLetter s))"

definition spaces1 :: "string \<Rightarrow> string option" where
  \<comment> \<open>\<^verbatim>\<open>\s+\<close>\<close>
  "spaces1 s = (if takeWhile isSpace s = [] then None else Some (dropWhile isSpace s))"

definition hhmm :: "string \<Rightarrow> (string \<times> string) option" where
  \<comment> \<open>\<^verbatim>\<open>(\d{1,2}:\d{2})\<close>\<close>
  "hhmm s = do {
     (h, s1) \<leftarrow> digits12 s;
     s2 \<leftarrow> lit CHR '':'' s1;
     (m, s3) \<leftarrow> digits2 s2;
     Some (h @ '':'' @ m, s3)
   }"

definition ampm_opt :: "string \<Rightarrow> string option \<times> string" where
  \<comment> \<open>\<^verbatim>\<open>(AM|PM)?\<close>: what follows it can start with neither A nor P\<close>
  "ampm_opt s = (case ampm s of Some (a, r) \<Rightarrow> (Some a, r) | None \<Rightarrow> (None, s))"

text \<open>
  \<^verbatim>\<open>/^([A-Za-z]+)\s+(\d{1,2}:\d{2})\s*(AM|PM)?\s*-\s*(\d{1,2}:\d{2})\s*(AM|PM)$/i\<close>,
  the captures 1 to 5; the third is \<^verbatim>\<open>undefined\<close> when its group took no part.
\<close>

definition match_entry :: "string \<Rightarrow> (string \<times> string \<times> string option \<times> string \<times> string) option" where
  "match_entry s = do {
     (d, s1) \<leftarrow> letters1 s;
     s2 \<leftarrow> spaces1 s1;
     (t1, s3) \<leftarrow> hhmm s2;
     (a1, s4) \<leftarrow> Some (ampm_opt (dropWhile isSpace s3));
     s5 \<leftarrow> lit CHR ''-'' (dropWhile isSpace s4);
     (t2, s6) \<leftarrow> hhmm (dropWhile isSpace s5);
     (a2, s7) \<leftarrow> ampm (dropWhile isSpace s6);
     if s7 = [] then Some (d, t1, a1, t2, a2) else None
   }"

text \<open>
  The \<^verbatim>\<open>while\<close> loop over the upper-cased day letters, as a recursion on what is left
  of them from index \<^verbatim>\<open>i\<close> on.
\<close>

fun scanDays :: "string \<Rightarrow> string list" where
  "scanDays [] = []"
| "scanDays [c] = (if c \<in> set ''MTWFS'' then [[c]] else [])"
| "scanDays (c # d # r) =
     (if [c, d] = ''TH'' \<or> [c, d] = ''SU'' then [c, d] # scanDays r
      else if c \<in> set ''MTWFS'' then [c] # scanDays (d # r)
      else scanDays (d # r))"

text \<open>
  The body of the \<^verbatim>\<open>forEach\<close> callback up to the test \<^verbatim>\<open>startTime && endTime\<close>: the days
  and the two times of the slot to add, or \<^const>\<open>None\<close> when the entry is only logged.
\<close>

definition parseEntry :: "string \<Rightarrow> (string list \<times> string \<times> string) option" where
  "parseEntry entry =
     (case match_entry entry of
        None \<Rightarrow> None
      | Some (p1, p2, p3, p4, p5) \<Rightarrow>
          (let dayString = toUpperCase p1;
               startTimePart = p2;
               startAmpm = (case p3 of Some a \<Rightarrow> toUpperCase a | None \<Rightarrow> []);
               endTimePart = p4;
               endAmpm = (if p5 \<noteq> [] then toUpperCase p5 else []);
               startTimeStr = trim (startTimePart @ (if startAmpm \<noteq> [] then '' '' @ startAmpm else []));
               endTimeStr = trim (endTimePart @ (if endAmpm \<noteq> [] then '' '' @ endAmpm else []));
               ds = scanDays dayString;
               startTime = parse12HourTime startTimeStr;
               endTime = parse12HourTime endTimeStr
           in if startTime \<noteq> [] \<and> endTime \<noteq> [] then Some (ds, startTime, endTime) else None))"

definition parseSlotStep :: "builder \<Rightarrow> string \<Rightarrow> builder" where
  "parseSlotStep st entry =
     (case parseEntry entry of
        None \<Rightarrow> st
      | Some (ds, startT, endT) \<Rightarrow>
          addTimeSlot \<lparr>slot_id = ''slot_'' @ showNat (timeSlotCounter st),
                       days = ds, startTime = startT, endTime = endT, isOvernight = None\<rparr>
                      (st\<lparr>timeSlotCounter := Suc (timeSlotCounter st)\<rparr>))"

definition entries :: "string \<Rightarrow> string list" where
  \<comment> \<open>\<^verbatim>\<open>scheduleString.split(',').map(s => s.trim()).filter(s => s)\<close>\<close>
  "entries scheduleString = filter (\<lambda>s. s \<noteq> []) (map trim (split_on CHR '','' scheduleString))"

definition parseExistingSchedule :: "string \<Rightarrow> builder \<Rightarrow> builder" where
  "parseExistingSchedule scheduleString st =
     (if scheduleString = [] then st
      else foldl parseSlotStep (st\<lparr>timeSlots := []\<rparr>) (entries scheduleString))"

section \<open>The conflict check\<close>

text \<open>
  \<^verbatim>\<open>checkScheduleConflicts\<close> awaits one request. What the network and the server do is
  a parameter: for the schedule posted, either \<^verbatim>\<open>fetch\<close> rejects, or \<^verbatim>\<open>response.json()\<close>
  rejects, or the body is \<^verbatim>\<open>null\<close> (reading a property of it throws), or the body is an
  object, of which the function reads whether \<^verbatim>\<open>success\<close> is truthy and the \<^verbatim>\<open>message\<close>
  (\<^const>\<open>None\<close>: absent or falsy). The function returns its result, the schedules it
  posted, and the state (which \<^verbatim>\<open>formatSchedule\<close> may have changed).
\<close>

datatype reply = FetchRejects | JsonRejects | BodyNull | Body bool "string option"

record conflict =
  hasConflict :: bool
  message :: string

definition checkScheduleConflicts ::
  "(string \<Rightarrow> reply) \<Rightarrow> slot list \<Rightarrow> builder \<Rightarrow> conflict \<times> string list \<times> builder" where
  "checkScheduleConflicts server slots st =
     (if slots = [] then (\<lparr>hasConflict = False, message = []\<rparr>, [], st)
      else (let (schedule, st') = formatSchedule st
            in case server schedule of
                 Body success msg \<Rightarrow>
                   (\<lparr>hasConflict = \<not> success,
                     message = (case msg of Some m \<Rightarrow> m | None \<Rightarrow> [])\<rparr>, [schedule], st')
               | _ \<Rightarrow>
                   (\<lparr>hasConflict = False, message = ''Error checking schedule conflicts''\<rparr>,
                    [schedule], st')))"

section \<open>The value of a time field\<close>

text \<open>
  The two fields \<^verbatim>\<open>#startTime\<close> and \<^verbatim>\<open>#endTime\<close> hold the empty string, or a time as
  \<^verbatim>\<open>HH:MM\<close>, hour and minute with two digits each.
\<close>

definition timeText :: "nat \<Rightarrow> nat \<Rightarrow> string" where
  "timeText h m = padStart2 (showNat h) @ '':'' @ padStart2 (showNat m)"

section \<open>What the schedule string carries of a slot\<close>

text \<open>The days of a slot, in whatever order, and its two times.\<close>

definition slotKey :: "slot \<Rightarrow> string multiset \<times> string \<times> string" where
  "slotKey sl = (mset (days sl), startTime sl, endTime sl)"

text \<open>The place of a day code in the \<^verbatim>\<open>dayOrder\<close> table.\<close>

definition dayIndex :: "string \<Rightarrow> int" where
  "dayIndex d = (case dayOrder d of Some i \<Rightarrow> i | None \<Rightarrow> 0)"

section \<open>Facts about digits, white space and the matchers\<close>

lemma below10: "n < 10 \<Longrightarrow> n \<in> {0, 1, 2, 3, 4, 5, 6, 7, 8, 9::nat}"
  by auto

lemma isDigit_digitChar: "n < 10 \<Longrightarrow> isDigit (digitChar n)"
  using below10 [of n] by (auto simp: isDigit_def digitChar_def)

lemma digitVal_digitChar: "n < 10 \<Longrightarrow> digitVal (digitChar n) = int n"
  using below10 [of n] by (auto simp: digitVal_def digitChar_def)

lemma notSpace_digitChar: "n < 10 \<Longrightarrow> \<not> isSpace (digitChar n)"
  using below10 [of n] by (auto simp: isSpace_def digitChar_def)

lemma showNat_one: "n < 10 \<Longrightarrow> showNat n = [digitChar n]"
  by (simp add: showNat.simps)

lemma showNat_two:
  "10 \<le> n \<Longrightarrow> n < 100 \<Longrightarrow> showNat n = [digitChar (n div 10), digitChar (n mod 10)]"
  by (subst showNat.simps) (simp add: showNat_one)

lemma isDigit_notSpace: "isDigit c \<Longrightarrow> \<not> isSpace c"
  by (auto simp: isDigit_def isSpace_def)

lemma isLetter_notSpace: "isLetter c \<Longrightarrow> \<not> isSpace c"
  by (auto simp: isLetter_def isSpace_def)

lemma dropWhile_hd: "s \<noteq> [] \<Longrightarrow> \<not> P (hd s) \<Longrightarrow> dropWhile P s = s"
  by (cases s) auto

lemma trim_id:
  assumes "s \<noteq> []" and "\<not> isSpace (hd s)" and "\<not> isSpace (last s)"
  shows "trim s = s"
proof -
  have fwd: "dropWhile isSpace s = s"
    using assms by (simp add: dropWhile_hd)
  have "rev s \<noteq> []" and "hd (rev s) = last s"
    using assms by (simp_all add: hd_rev)
  then have bwd: "dropWhile isSpace (rev s) = rev s"
    using assms by (simp add: dropWhile_hd)
  show ?thesis
    by (simp add: trim_def fwd bwd)
qed

subsection \<open>The pieces of the regular expressions on a composed input\<close>

lemma takeWhile_all: "list_all P xs \<Longrightarrow> takeWhile P xs = xs"
  by (simp add: list_all_iff)

lemma takeWhile_stop: "list_all P xs \<Longrightarrow> \<not> P c \<Longrightarrow> takeWhile P (xs @ c # r) = xs"
  by (simp add: list_all_iff takeWhile_append2)

lemma dropWhile_stop: "list_all P xs \<Longrightarrow> \<not> P c \<Longrightarrow> dropWhile P (xs @ c # r) = c # r"
  by (simp add: list_all_iff dropWhile_append2)

lemma digits12_step:
  assumes "list_all isDigit h" and "length h = 1 \<or> length h = 2" and "\<not> isDigit c"
  shows "digits12 (h @ c # r) = Some (h, c # r)"
proof -
  show ?thesis
    using assms by (simp add: digits12_def takeWhile_stop dropWhile_stop)
qed

lemma hhmm_step:
  assumes "list_all isDigit h" and "length h = 1 \<or> length h = 2" and "isDigit a" and "isDigit b"
  shows "hhmm (h @ CHR '':'' # a # b # r) = Some (h @ CHR '':'' # [a, b], r)"
  using assms by (simp add: hhmm_def digits12_step isDigit_def lit_def digits2_def)

lemma match_time12_PM:
  assumes "list_all isDigit h" and "length h = 1 \<or> length h = 2" and "isDigit a" and "isDigit b"
  shows "match_time12 (h @ '':'' @ [a, b] @ '' PM'') = Some (h, [a, b], ''PM'')"
  using assms by (simp add: match_time12_def digits12_step isDigit_def lit_def digits2_def ampm_def isSpace_def)

lemma match_time12_AM:
  assumes "list_all isDigit h" and "length h = 1 \<or> length h = 2" and "isDigit a" and "isDigit b"
  shows "match_time12 (h @ '':'' @ [a, b] @ '' AM'') = Some (h, [a, b], ''AM'')"
  using assms by (simp add: match_time12_def digits12_step isDigit_def lit_def digits2_def ampm_def isSpace_def)

lemma match_time12_bare:
  assumes "list_all isDigit h" and "length h = 1 \<or> length h = 2" and "isDigit a" and "isDigit b"
  shows "match_time12 (h @ '':'' @ [a, b]) = None"
  using assms by (simp add: match_time12_def digits12_step isDigit_def lit_def digits2_def ampm_def isSpace_def)

lemma parseInt_digits:
  assumes "list_all isDigit h" and "h \<noteq> []"
  shows "parseInt h = Some (digitsVal h)"
proof -
  have "\<not> isSpace (hd h)" and "hd h \<noteq> CHR ''-''" and "hd h \<noteq> CHR ''+''"
    using assms by (cases h; auto simp: isDigit_def isSpace_def)+
  then show ?thesis
    using assms by (cases h) (simp_all add: parseInt_def takeWhile_all)
qed

subsection \<open>Times\<close>

lemma digitsVal_two: "digitsVal [a, b] = 10 * digitVal a + digitVal b"
  by (simp add: digitsVal_def)

lemma digitsVal_one: "digitsVal [a] = digitVal a"
  by (simp add: digitsVal_def)

lemma toUpperCase_PM: "toUpperCase ''PM'' = ''PM''"
  by (simp add: toUpperCase_def upperChar_def)

lemma toUpperCase_AM: "toUpperCase ''AM'' = ''AM''"
  by (simp add: toUpperCase_def upperChar_def)

lemma ten_split: "10 * int (h div 10) + int (h mod 10) = int h"
  by presburger

lemma parse12HourTime_matched:
  assumes "trim s = t" and "match_time12 t = Some (p1, p2, p3)" and "parseInt p1 = Some h"
  shows "parse12HourTime s =
           padStart2 (showNum (if toUpperCase p3 = ''PM'' \<and> h < 12 then Some (h + 12)
                               else if toUpperCase p3 = ''AM'' \<and> h = 12 then Some 0
                               else Some h)) @ '':'' @ p2"
  using assms by (simp add: parse12HourTime_def Let_def)

lemma parse12HourTime_unmatched:
  assumes "trim s = t" and "match_time12 t = None"
  shows "parse12HourTime s = []"
  using assms by (simp add: parse12HourTime_def)

lemma notSpace_M: "\<not> isSpace CHR ''M''"
  by (simp add: isSpace_def)

lemma parse12HourTime_PM_any:
  assumes "13 \<le> h" and "h \<le> 99" and "isDigit m1" and "isDigit m2"
  shows "parse12HourTime (showNat h @ '':'' @ [m1, m2] @ '' PM'') = showNat h @ '':'' @ [m1, m2]"
proof -
  let ?a = "digitChar (h div 10)" and ?b = "digitChar (h mod 10)"
  let ?s = "[?a, ?b] @ '':'' @ [m1, m2] @ '' PM''"
  have sh: "showNat h = [?a, ?b]"
    using assms by (simp add: showNat_two)
  have da: "isDigit ?a" and db: "isDigit ?b"
    using assms by (simp_all add: isDigit_digitChar)
  have val: "parseInt [?a, ?b] = Some (int h)"
    using assms da db by (simp add: parseInt_digits digitsVal_two digitVal_digitChar ten_split)
  have tr: "trim ?s = ?s"
    using isDigit_notSpace [OF da] notSpace_M by (intro trim_id) simp_all
  have m: "match_time12 ?s = Some ([?a, ?b], [m1, m2], ''PM'')"
    using assms da db by (intro match_time12_PM) simp_all
  have "parse12HourTime ?s = padStart2 (showNum (Some (int h))) @ '':'' @ [m1, m2]"
    using assms parse12HourTime_matched [OF tr m val] by (simp add: toUpperCase_PM)
  also have "showNum (Some (int h)) = [?a, ?b]"
    by (simp add: showNum_def sh)
  finally show ?thesis
    by (simp add: sh padStart2_def)
qed

lemma parse12HourTime_zero_AM:
  assumes "isDigit m1" and "isDigit m2"
  shows "parse12HourTime (''0:'' @ [m1, m2] @ '' AM'') = ''00:'' @ [m1, m2]"
proof -
  let ?s = "''0'' @ '':'' @ [m1, m2] @ '' AM''"
  have tr: "trim ?s = ?s"
    using notSpace_M by (intro trim_id) (simp_all add: isSpace_def)
  have m: "match_time12 ?s = Some (''0'', [m1, m2], ''AM'')"
    using assms by (intro match_time12_AM) (simp_all add: isDigit_def)
  have val: "parseInt ''0'' = Some 0"
    by (simp add: parseInt_digits isDigit_def digitsVal_one digitVal_def)
  have "parse12HourTime ?s = padStart2 (showNum (Some 0)) @ '':'' @ [m1, m2]"
    using parse12HourTime_matched [OF tr m val] by (simp add: toUpperCase_AM)
  then show ?thesis
    by (simp add: showNum_def showNat_one digitChar_def padStart2_def)
qed

subsection \<open>Entries\<close>

lemma letters1_step:
  assumes "list_all isLetter d" and "d \<noteq> []" and "\<not> isLetter c"
  shows "letters1 (d @ c # r) = Some (d, c # r)"
  using assms by (simp add: letters1_def takeWhile_stop dropWhile_stop)

lemma spaces1_space:
  assumes "\<not> isSpace c"
  shows "spaces1 (CHR '' '' # c # r) = Some (c # r)"
  using assms by (simp add: spaces1_def isSpace_def)

lemma notLetter_space: "\<not> isLetter CHR '' ''"
  by (simp add: isLetter_def)

lemma match_entry_bare_start:
  assumes d: "list_all isLetter d" "d \<noteq> []"
    and h1: "list_all isDigit h1" "length h1 = 1 \<or> length h1 = 2"
    and m1: "isDigit a" "isDigit b"
    and h2: "list_all isDigit h2" "length h2 = 1 \<or> length h2 = 2"
    and m2: "isDigit c" "isDigit e"
    and ap: "ap = ''AM'' \<or> ap = ''PM''"
  shows "match_entry (d @ '' '' @ h1 @ '':'' @ [a, b] @ ''-'' @ h2 @ '':'' @ [c, e] @ '' '' @ ap)
           = Some (d, h1 @ '':'' @ [a, b], None, h2 @ '':'' @ [c, e], ap)"
proof -
  have h1ne: "h1 \<noteq> []" and h2ne: "h2 \<noteq> []"
    using h1 h2 by auto
  have nsp1: "\<not> isSpace (hd h1)" and nsp2: "\<not> isSpace (hd h2)"
    using h1 h2 h1ne h2ne by (cases h1; cases h2; simp add: isDigit_notSpace)+
  let ?r1 = "h1 @ CHR '':'' # a # b # CHR ''-'' # h2 @ CHR '':'' # c # e # CHR '' '' # ap"
  have s1: "letters1 (d @ CHR '' '' # ?r1) = Some (d, CHR '' '' # ?r1)"
    using d by (intro letters1_step notLetter_space)
  have s2: "spaces1 (CHR '' '' # ?r1) = Some ?r1"
    using nsp1 h1ne by (cases h1) (simp_all add: spaces1_space)
  let ?r2 = "CHR ''-'' # h2 @ CHR '':'' # c # e # CHR '' '' # ap"
  have s3: "hhmm ?r1 = Some (h1 @ CHR '':'' # [a, b], ?r2)"
    using h1 m1 by (intro hhmm_step)
  have nd: "\<not> isSpace CHR ''-''" and sp: "isSpace CHR '' ''"
    by (simp_all add: isSpace_def)
  have s4: "ampm_opt ?r2 = (None, ?r2)"
    by (simp add: ampm_opt_def ampm_def split: list.splits)
  let ?r3 = "h2 @ CHR '':'' # c # e # CHR '' '' # ap"
  have s5: "lit CHR ''-'' ?r2 = Some ?r3"
    by (simp add: lit_def)
  have s6a: "dropWhile isSpace ?r3 = ?r3"
    using nsp2 h2ne by (cases h2) simp_all
  have s6: "hhmm ?r3 = Some (h2 @ CHR '':'' # [c, e], CHR '' '' # ap)"
    using h2 m2 by (intro hhmm_step)
  have s7a: "dropWhile isSpace ap = ap"
    using ap by (auto simp: isSpace_def)
  have s7: "ampm ap = Some (ap, [])"
    using ap by (auto simp: ampm_def)
  show ?thesis
    by (simp add: match_entry_def s1 s2 s3 nd sp s4 s5 s6a s6 s7a s7)
qed


lemma match_entry_no_end_ampm:
  assumes d: "list_all isLetter d" "d \<noteq> []"
    and h1: "list_all isDigit h1" "length h1 = 1 \<or> length h1 = 2"
    and m1: "isDigit a" "isDigit b"
    and h2: "list_all isDigit h2" "length h2 = 1 \<or> length h2 = 2"
    and m2: "isDigit c" "isDigit e"
  shows "match_entry (d @ '' '' @ h1 @ '':'' @ [a, b] @ ''-'' @ h2 @ '':'' @ [c, e]) = None"
proof -
  have h1ne: "h1 \<noteq> []" and h2ne: "h2 \<noteq> []"
    using h1 h2 by auto
  have nsp1: "\<not> isSpace (hd h1)" and nsp2: "\<not> isSpace (hd h2)"
    using h1 h2 h1ne h2ne by (cases h1; cases h2; simp add: isDigit_notSpace)+
  let ?r1 = "h1 @ CHR '':'' # a # b # CHR ''-'' # h2 @ CHR '':'' # [c, e]"
  have s1: "letters1 (d @ CHR '' '' # ?r1) = Some (d, CHR '' '' # ?r1)"
    using d by (intro letters1_step notLetter_space)
  have s2: "spaces1 (CHR '' '' # ?r1) = Some ?r1"
    using nsp1 h1ne by (cases h1) (simp_all add: spaces1_space)
  let ?r2 = "CHR ''-'' # h2 @ CHR '':'' # [c, e]"
  have s3: "hhmm ?r1 = Some (h1 @ CHR '':'' # [a, b], ?r2)"
    using h1 m1 by (intro hhmm_step)
  have nd: "\<not> isSpace CHR ''-''"
    by (simp add: isSpace_def)
  have s4: "ampm_opt ?r2 = (None, ?r2)"
    by (simp add: ampm_opt_def ampm_def split: list.splits)
  let ?r3 = "h2 @ CHR '':'' # [c, e]"
  have s5: "lit CHR ''-'' ?r2 = Some ?r3"
    by (simp add: lit_def)
  have s6a: "dropWhile isSpace ?r3 = ?r3"
    using nsp2 h2ne by (cases h2) simp_all
  have s6: "hhmm ?r3 = Some (h2 @ CHR '':'' # [c, e], [])"
    using h2 m2 by (intro hhmm_step)
  have s7: "ampm [] = None"
    by (simp add: ampm_def)
  show ?thesis
    by (simp add: match_entry_def s1 s2 s3 nd s4 s5 s6a s6 s7)
qed

lemma parse12HourTime_bare:
  assumes "list_all isDigit h" and "length h = 1 \<or> length h = 2" and "isDigit a" and "isDigit b"
  shows "parse12HourTime (h @ '':'' @ [a, b]) = []"
proof -
  let ?s = "h @ '':'' @ [a, b]"
  have "h \<noteq> []"
    using assms by auto
  then have "\<not> isSpace (hd ?s)"
    using assms by (cases h) (simp_all add: isDigit_notSpace)
  moreover have "\<not> isSpace (last ?s)"
    using assms by (simp add: isDigit_notSpace)
  ultimately have tr: "trim ?s = ?s"
    by (intro trim_id) simp_all
  show ?thesis
    using assms by (intro parse12HourTime_unmatched [OF tr] match_time12_bare)
qed

lemma parseEntry_start_fails:
  assumes "match_entry e = Some (p1, p2, None, p4, p5)" and "parse12HourTime (trim p2) = []"
  shows "parseEntry e = None"
  using assms by (simp add: parseEntry_def Let_def)

lemma parseEntry_bare_start:
  assumes d: "list_all isLetter d" "d \<noteq> []"
    and h1: "list_all isDigit h1" "length h1 = 1 \<or> length h1 = 2"
    and m1: "isDigit a" "isDigit b"
    and h2: "list_all isDigit h2" "length h2 = 1 \<or> length h2 = 2"
    and m2: "isDigit c" "isDigit e"
    and ap: "ap = ''AM'' \<or> ap = ''PM''"
  shows "parseEntry (d @ '' '' @ h1 @ '':'' @ [a, b] @ ''-'' @ h2 @ '':'' @ [c, e] @ '' '' @ ap) = None"
proof -
  let ?t = "h1 @ '':'' @ [a, b]"
  have "h1 \<noteq> []"
    using h1 by auto
  then have "\<not> isSpace (hd ?t)"
    using h1 by (cases h1) (simp_all add: isDigit_notSpace)
  moreover have "\<not> isSpace (last ?t)"
    using m1 by (simp add: isDigit_notSpace)
  ultimately have tr: "trim ?t = ?t"
    by (intro trim_id) simp_all
  have "parse12HourTime ?t = []"
    using h1 m1 by (rule parse12HourTime_bare)
  then have "parse12HourTime (trim ?t) = []"
    by (simp only: tr)
  then show ?thesis
    by (rule parseEntry_start_fails [OF match_entry_bare_start [OF assms]])
qed

subsection \<open>Splitting at commas\<close>

lemma split_on_not_Nil: "split_on c s \<noteq> []"
  by (induction s) (auto split: list.splits)

lemma split_on_sep: "split_on c (a @ c # b) = split_on c a @ split_on c b"
proof (induction a)
  case Nil
  show ?case by simp
next
  case (Cons x a)
  obtain p ps where ps: "split_on c a = p # ps"
    using split_on_not_Nil [of c a] by (cases "split_on c a") auto
  show ?case
    by (simp add: Cons.IH ps)
qed

lemma split_on_none: "c \<notin> set s \<Longrightarrow> split_on c s = [s]"
  by (induction s) auto

lemma entries_sep: "entries (a @ CHR '','' # b) = entries a @ entries b"
  by (simp add: entries_def split_on_sep)

lemma entries_single:
  assumes "CHR '','' \<notin> set e" and "trim e = e" and "e \<noteq> []"
  shows "entries e = [e]"
  using assms by (simp add: entries_def split_on_none)

lemma parseSlotStep_skip: "parseEntry e = None \<Longrightarrow> parseSlotStep st e = st"
  by (simp add: parseSlotStep_def)

lemma parseExistingSchedule_skip:
  assumes "parseEntry e = None" and "CHR '','' \<notin> set e" and "trim e = e" and "e \<noteq> []"
  shows "parseExistingSchedule (pre @ '','' @ e @ '','' @ post) st
           = parseExistingSchedule (pre @ '','' @ post) st"
proof -
  have "entries (pre @ '','' @ e @ '','' @ post) = entries pre @ e # entries post"
    using assms by (simp add: entries_sep entries_single)
  moreover have "entries (pre @ '','' @ post) = entries pre @ entries post"
    by (simp add: entries_sep)
  ultimately show ?thesis
    using assms(1) by (simp add: parseExistingSchedule_def parseSlotStep_skip)
qed

lemma isLetter_not_comma: "isLetter c \<Longrightarrow> c \<noteq> CHR '',''"
  by (auto simp: isLetter_def)

lemma isDigit_not_comma: "isDigit c \<Longrightarrow> c \<noteq> CHR '',''"
  by (auto simp: isDigit_def)

lemma no_comma_letters: "list_all isLetter d \<Longrightarrow> CHR '','' \<notin> set d"
  by (auto simp: list_all_iff dest: isLetter_not_comma)

lemma no_comma_digits: "list_all isDigit d \<Longrightarrow> CHR '','' \<notin> set d"
  by (auto simp: list_all_iff dest: isDigit_not_comma)

subsection \<open>What the display update keeps\<close>

lemma mset_insertDay: "mset (insertDay x ys) = add_mset x (mset ys)"
  by (induction ys) auto

lemma mset_sortDays: "mset (sortDays xs) = mset xs"
  by (induction xs) (simp_all add: sortDays_def mset_insertDay)

lemma formatSlot_keeps:
  "mset (days (snd (formatSlot sl))) = mset (days sl)"
  "startTime (snd (formatSlot sl)) = startTime sl"
  "endTime (snd (formatSlot sl)) = endTime sl"
  "slot_id (snd (formatSlot sl)) = slot_id sl"
  "isOvernight (snd (formatSlot sl)) = isOvernight sl"
  by (simp_all add: formatSlot_def Let_def mset_sortDays)

lemma updateScheduleDisplay_slots:
  "timeSlots (updateScheduleDisplay st)
     = (if domPresent st then map (\<lambda>sl. snd (formatSlot sl)) (timeSlots st) else timeSlots st)"
  by (simp add: updateScheduleDisplay_def formatSchedule_def Let_def)

lemma slotKey_formatSlot: "slotKey (snd (formatSlot sl)) = slotKey sl"
  by (simp add: slotKey_def formatSlot_keeps)

lemma slotKey_update: "map slotKey (timeSlots (updateScheduleDisplay st)) = map slotKey (timeSlots st)"
  by (simp add: updateScheduleDisplay_slots slotKey_formatSlot)

lemma slotKey_addTimeSlot:
  "map slotKey (timeSlots (addTimeSlot sl st)) = map slotKey (timeSlots st) @ [slotKey sl]"
  by (simp add: addTimeSlot_def slotKey_update)

lemma slotKey_parseSlotStep:
  "map slotKey (timeSlots (parseSlotStep st e))
     = map slotKey (timeSlots st)
       @ (case parseEntry e of None \<Rightarrow> [] | Some (ds, s, t) \<Rightarrow> [(mset ds, s, t)])"
  by (simp add: parseSlotStep_def slotKey_addTimeSlot slotKey_def split: option.splits)

lemma slotKey_foldl:
  "map slotKey (timeSlots (foldl parseSlotStep st es))
     = map slotKey (timeSlots st)
       @ map (\<lambda>(ds, s, t). (mset ds, s, t)) (List.map_filter parseEntry es)"
proof (induction es arbitrary: st)
  case Nil
  show ?case by (simp add: map_filter_simps)
next
  case (Cons e es)
  show ?case
    by (cases "parseEntry e") (auto simp: Cons.IH slotKey_parseSlotStep map_filter_simps)
qed

lemma parseEntry_unmatched: "match_entry e = None \<Longrightarrow> parseEntry e = None"
  by (simp add: parseEntry_def)

subsection \<open>What an entry adds\<close>

lemma trim_trim: "trim (trim s) = trim s"
proof -
  let ?u = "dropWhile isSpace (rev (dropWhile isSpace s))"
  have a: "dropWhile isSpace ?u = ?u"
    by simp
  have "dropWhile isSpace (rev ?u) = rev ?u"
  proof (cases "?u = []")
    case True
    show ?thesis unfolding True by simp
  next
    case False
    then obtain x where x: "x \<in> set ?u" and nx: "\<not> isSpace x"
      by (metis hd_dropWhile hd_in_set)
    have "set ?u \<subseteq> set (dropWhile isSpace s)"
      using set_dropWhileD by fastforce
    then have "x \<in> set (dropWhile isSpace s)"
      using x by blast
    then have ne: "dropWhile isSpace s \<noteq> []"
      by (metis empty_iff empty_set)
    then have h: "\<not> isSpace (hd (dropWhile isSpace s))"
      by (rule hd_dropWhile)
    obtain y ys where ys: "dropWhile isSpace s = y # ys"
      using ne by (cases "dropWhile isSpace s") auto
    with h have ny: "\<not> isSpace y"
      by simp
    have "?u = dropWhile isSpace (rev ys @ [y])"
      by (simp add: ys)
    also have "\<dots> = dropWhile isSpace (rev ys) @ [y]"
      using ny by (simp add: dropWhile_append)
    finally have "rev ?u = y # rev (dropWhile isSpace (rev ys))"
      by simp
    then show ?thesis
      using ny by simp
  qed
  then show ?thesis
    by (simp add: trim_def)
qed

lemma parse12HourTime_trim: "parse12HourTime (trim s) = parse12HourTime s"
  by (simp add: parse12HourTime_def trim_trim)

lemma ampm_two: "ampm s = Some (a, r) \<Longrightarrow> a \<noteq> []"
  by (auto simp: ampm_def split: list.splits if_splits)

lemma match_entry_captures:
  assumes "match_entry e = Some (p1, p2, p3, p4, p5)"
  shows "p5 \<noteq> [] \<and> (\<forall>a. p3 = Some a \<longrightarrow> a \<noteq> [])"
  using assms
  by (auto simp: match_entry_def ampm_opt_def dest: ampm_two
      split: Option.bind_splits prod.splits option.splits if_splits)

lemma toUpperCase_Nil_iff: "toUpperCase s = [] \<longleftrightarrow> s = []"
  by (simp add: toUpperCase_def)

lemma parseEntry_char:
  "parseEntry e =
     (case match_entry e of
        None \<Rightarrow> None
      | Some (p1, p2, p3, p4, p5) \<Rightarrow>
          if parse12HourTime (p2 @ (case p3 of None \<Rightarrow> [] | Some a \<Rightarrow> CHR '' '' # toUpperCase a)) = []
             \<or> parse12HourTime (p4 @ CHR '' '' # toUpperCase p5) = []
          then None
          else Some (scanDays (toUpperCase p1),
                     parse12HourTime (p2 @ (case p3 of None \<Rightarrow> [] | Some a \<Rightarrow> CHR '' '' # toUpperCase a)),
                     parse12HourTime (p4 @ CHR '' '' # toUpperCase p5)))"
proof (cases "match_entry e")
  case None
  then show ?thesis by (simp add: parseEntry_def)
next
  case (Some c)
  obtain p1 p2 p3 p4 p5 where c: "c = (p1, p2, p3, p4, p5)"
    by (cases c) auto
  have caps: "p5 \<noteq> []" "\<And>a. p3 = Some a \<Longrightarrow> a \<noteq> []"
    using match_entry_captures [of e p1 p2 p3 p4 p5] Some c by auto
  show ?thesis
  proof (cases p3)
    case None
    then show ?thesis
      using Some c caps
      by (simp add: parseEntry_def Let_def parse12HourTime_trim toUpperCase_Nil_iff)
  next
    case (Some a)
    then have "a \<noteq> []" by (rule caps(2))
    then show ?thesis
      using \<open>match_entry e = Some c\<close> c caps(1) Some
      by (simp add: parseEntry_def Let_def parse12HourTime_trim toUpperCase_Nil_iff)
  qed
qed

lemma map_map_filter:
  "map g (List.map_filter f xs) = List.map_filter (\<lambda>x. map_option g (f x)) xs"
  by (induction xs) (auto simp: map_filter_simps split: option.splits)

lemma parseEntry_key:
  "map_option (\<lambda>(ds, s, t). (mset ds, s, t)) (parseEntry e) =
     (case match_entry e of
        None \<Rightarrow> None
      | Some (p1, p2, p3, p4, p5) \<Rightarrow>
          (let s = parse12HourTime (p2 @ (case p3 of None \<Rightarrow> [] | Some a \<Rightarrow> CHR '' '' # toUpperCase a));
               t = parse12HourTime (p4 @ CHR '' '' # toUpperCase p5)
           in if s = [] \<or> t = [] then None
              else Some (mset (scanDays (toUpperCase p1)), s, t)))"
  by (subst parseEntry_char) (simp add: Let_def split: option.splits prod.splits)

lemma parseSlotStep_time_fails:
  assumes "match_entry e = Some (p1, p2, p3, p4, p5)"
    and "parse12HourTime (p2 @ (case p3 of None \<Rightarrow> [] | Some a \<Rightarrow> CHR '' '' # toUpperCase a)) = []
         \<or> parse12HourTime (p4 @ CHR '' '' # toUpperCase p5) = []"
  shows "parseSlotStep st e = st"
proof -
  have "parseEntry e = None"
    using assms by (subst parseEntry_char) auto
  then show ?thesis
    by (rule parseSlotStep_skip)
qed

subsection \<open>Sorting the seven day codes\<close>

lemma dayOrder_keys:
  "dayOrder d \<noteq> None \<Longrightarrow> d \<in> {''M'', ''T'', ''W'', ''Th'', ''F'', ''S'', ''Su''}"
  by (simp add: dayOrder_def split: if_splits)

lemma dayOrder_inverse:
  "dayOrder d = Some i \<Longrightarrow> d = [''M'', ''T'', ''W'', ''Th'', ''F'', ''S'', ''Su''] ! nat i"
  by (simp add: dayOrder_def split: if_splits)

lemma dayIndex_inj: "inj_on dayIndex {d. dayOrder d \<noteq> None}"
proof (rule inj_onI)
  fix x y
  assume "x \<in> {d. dayOrder d \<noteq> None}" and "y \<in> {d. dayOrder d \<noteq> None}"
    and eq: "dayIndex x = dayIndex y"
  then obtain i j where x: "dayOrder x = Some i" and y: "dayOrder y = Some j"
    by auto
  from eq x y have "i = j"
    by (simp add: dayIndex_def)
  with dayOrder_inverse [OF x] dayOrder_inverse [OF y] show "x = y"
    by simp
qed

lemma sortCompare_keys:
  assumes "dayOrder x \<noteq> None" and "dayOrder y \<noteq> None"
  shows "(sortCompare x y \<le> 0) = (dayIndex x \<le> dayIndex y)"
  using assms by (auto simp: sortCompare_def compareDays_def dayIndex_def)

lemma insertDay_insort:
  assumes "dayOrder x \<noteq> None" and "\<forall>y\<in>set ys. dayOrder y \<noteq> None"
  shows "insertDay x ys = insort_key dayIndex x ys"
  using assms by (induction ys) (simp_all add: sortCompare_keys)

lemma sortDays_sort_key:
  assumes "\<forall>d\<in>set ds. dayOrder d \<noteq> None"
  shows "sortDays ds = sort_key dayIndex ds"
  using assms
proof (induction ds)
  case Nil
  show ?case by (simp add: sortDays_def)
next
  case (Cons d ds)
  then have "sortDays ds = sort_key dayIndex ds"
    by simp
  moreover have "\<forall>y\<in>set (sort_key dayIndex ds). dayOrder y \<noteq> None"
    using Cons.prems by simp
  ultimately show ?case
    using Cons.prems insertDay_insort [of d "sort_key dayIndex ds"]
    by (simp add: sortDays_def)
qed

lemma sortDays_permutation:
  assumes "\<forall>d\<in>set ds. dayOrder d \<noteq> None" and "mset ds' = mset ds"
  shows "sortDays ds' = sortDays ds"
proof -
  have same: "set ds' = set ds"
    using assms(2) by (rule mset_eq_setD)
  then have keys': "\<forall>d\<in>set ds'. dayOrder d \<noteq> None"
    using assms(1) by simp
  have "mset ds' = mset (sort_key dayIndex ds)"
    using assms(2) by simp
  moreover have "inj_on dayIndex (set ds')"
    using keys' by (intro inj_on_subset [OF dayIndex_inj]) auto
  moreover have "sorted (map dayIndex (sort_key dayIndex ds))"
    by simp
  ultimately have "sort_key dayIndex ds' = sort_key dayIndex ds"
    by (intro sort_key_inj_key_eq)
  then show ?thesis
    using assms(1) keys' by (simp add: sortDays_sort_key)
qed

lemma sortDays_idem:
  assumes "\<forall>d\<in>set ds. dayOrder d \<noteq> None"
  shows "sortDays (sortDays ds) = sortDays ds"
proof -
  have "mset (sortDays ds) = mset ds"
    by (rule mset_sortDays)
  with assms show ?thesis
    by (rule sortDays_permutation)
qed

lemma sortDays_week_order:
  assumes "\<forall>d\<in>set ds. dayOrder d \<noteq> None" and "distinct ds"
  shows "sortDays ds = filter (\<lambda>d. d \<in> set ds) [''M'', ''T'', ''W'', ''Th'', ''F'', ''S'', ''Su'']"
proof -
  define week where "week = [''M'', ''T'', ''W'', ''Th'', ''F'', ''S'', ''Su'']"
  let ?ys = "filter (\<lambda>d. d \<in> set ds) week"
  have sub: "set ds \<subseteq> set week"
    using assms(1) dayOrder_keys by (auto simp: week_def)
  have "distinct week"
    by (simp add: week_def)
  then have "distinct ?ys"
    by (rule distinct_filter)
  moreover have "set ?ys = set ds"
    using sub by auto
  ultimately have m: "mset ds = mset ?ys"
    using assms(2) set_eq_iff_mset_eq_distinct [of ds ?ys] by simp
  have i: "inj_on dayIndex (set ds)"
    using assms(1) by (intro inj_on_subset [OF dayIndex_inj]) auto
  have "sorted (map dayIndex week)"
    by (simp add: week_def dayIndex_def dayOrder_def)
  then have s: "sorted (map dayIndex ?ys)"
    by (rule sorted_filter)
  have "sort_key dayIndex ds = ?ys"
    using m i s by (rule sort_key_inj_key_eq)
  then show ?thesis
    using assms(1) by (simp add: sortDays_sort_key week_def)
qed


subsection \<open>The text of a slot and of the schedule\<close>


lemma formatSlot_slot: "snd (formatSlot sl) = sl\<lparr>days := sortDays (days sl)\<rparr>"
  by (simp add: formatSlot_def Let_def)


lemma formatSchedule_state:
  "snd (formatSchedule st) = st\<lparr>timeSlots := map (\<lambda>sl. sl\<lparr>days := sortDays (days sl)\<rparr>) (timeSlots st)\<rparr>"
  by (simp add: formatSchedule_def Let_def comp_def formatSlot_slot)

lemma formatSlot_sorted_slot:
  assumes "\<forall>d\<in>set (days sl). dayOrder d \<noteq> None"
  shows "formatSlot (sl\<lparr>days := sortDays (days sl)\<rparr>) = (fst (formatSlot sl), sl\<lparr>days := sortDays (days sl)\<rparr>)"
  using assms by (simp add: formatSlot_def Let_def sortDays_idem)

lemma formatSchedule_again:
  assumes "\<forall>sl\<in>set (timeSlots st). \<forall>d\<in>set (days sl). dayOrder d \<noteq> None"
  shows "formatSchedule (snd (formatSchedule st)) = formatSchedule st"
proof (cases "timeSlots st = []")
  case True
  then show ?thesis
    by (simp add: formatSchedule_def)
next
  case False
  let ?srt = "\<lambda>sl. sl\<lparr>days := sortDays (days sl)\<rparr>"
  have each: "formatSlot (?srt sl) = (fst (formatSlot sl), ?srt sl)" if "sl \<in> set (timeSlots st)" for sl
    using assms that by (intro formatSlot_sorted_slot) simp
  have texts: "map (\<lambda>sl. fst (formatSlot (?srt sl))) (timeSlots st) = map (\<lambda>sl. fst (formatSlot sl)) (timeSlots st)"
    using each by (intro map_cong) simp_all
  have slots: "map (\<lambda>sl. snd (formatSlot (?srt sl))) (timeSlots st) = map ?srt (timeSlots st)"
    using each by (intro map_cong) simp_all
  have slots0: "map (\<lambda>sl. snd (formatSlot sl)) (timeSlots st) = map ?srt (timeSlots st)"
    by (simp add: formatSlot_slot)
  show ?thesis
    using False by (simp add: formatSchedule_def Let_def comp_def texts slots slots0)
qed




lemma sorted_sortDays:
  assumes "\<forall>d\<in>set ds. dayOrder d \<noteq> None"
  shows "sorted (map dayIndex (sortDays ds))"
  using assms by (simp add: sortDays_sort_key)

lemma formatSchedule_slots_after:
  "timeSlots (snd (formatSchedule st)) = map (\<lambda>sl. sl\<lparr>days := sortDays (days sl)\<rparr>) (timeSlots st)"
  by (simp add: formatSchedule_state)

lemma formatSchedule_rest:
  "snd (formatSchedule st) = st\<lparr>timeSlots := timeSlots (snd (formatSchedule st))\<rparr>"
  by (simp add: formatSchedule_state)

lemma formatSchedule_same_days:
  "list_all2 (\<lambda>sl sl'. sl' = sl\<lparr>days := days sl'\<rparr> \<and> mset (days sl') = mset (days sl))
     (timeSlots st) (timeSlots (snd (formatSchedule st)))"
  by (simp add: formatSchedule_slots_after list_all2_map2 list_all2_same mset_sortDays)

lemma formatSchedule_week_order:
  assumes "\<forall>sl\<in>set (timeSlots st). \<forall>d\<in>set (days sl). dayOrder d \<noteq> None"
  shows "list_all2 (\<lambda>sl sl'. sorted (map dayIndex (days sl')) \<and>
                      (distinct (days sl) \<longrightarrow>
                         days sl' = filter (\<lambda>d. d \<in> set (days sl))
                                      [''M'', ''T'', ''W'', ''Th'', ''F'', ''S'', ''Su'']))
           (timeSlots st) (timeSlots (snd (formatSchedule st)))"
  unfolding formatSchedule_slots_after list_all2_map2 list_all2_same
proof (intro ballI conjI impI)
  fix sl
  assume sl: "sl \<in> set (timeSlots st)"
  then have keys: "\<forall>d\<in>set (days sl). dayOrder d \<noteq> None"
    using assms by simp
  show "sorted (map dayIndex (days (sl\<lparr>days := sortDays (days sl)\<rparr>)))"
    using keys by (simp add: sorted_sortDays)
  assume "distinct (days sl)"
  with keys show "days (sl\<lparr>days := sortDays (days sl)\<rparr>)
          = filter (\<lambda>d. d \<in> set (days sl)) [''M'', ''T'', ''W'', ''Th'', ''F'', ''S'', ''Su'']"
    using sortDays_week_order [of "days sl"] by simp
qed

subsection \<open>The click handler on the values of the time fields\<close>

lemma digitChar_0: "digitChar 0 = CHR ''0''"
  by (simp add: digitChar_def)

lemma padStart2_showNat:
  assumes "n < 100"
  shows "padStart2 (showNat n) = [digitChar (n div 10), digitChar (n mod 10)]"
proof (cases "n < 10")
  case True
  then show ?thesis
    by (simp add: showNat_one padStart2_def digitChar_0)
next
  case False
  then show ?thesis
    using assms by (simp add: showNat_two padStart2_def)
qed

lemma isDigit_not_colon: "isDigit c \<Longrightarrow> c \<noteq> CHR '':''"
  by (auto simp: isDigit_def)

lemma toNumber_two:
  assumes "isDigit a" and "isDigit b"
  shows "toNumber [a, b] = Some (10 * digitVal a + digitVal b)"
proof -
  have "trim [a, b] = [a, b]"
    using assms by (intro trim_id) (simp_all add: isDigit_notSpace)
  then show ?thesis
    using assms by (simp add: toNumber_def digitsVal_two)
qed

lemma totalMinutes_digits:
  assumes "isDigit a" and "isDigit b" and "isDigit c" and "isDigit d"
  shows "totalMinutes [a, b, CHR '':'', c, d]
           = Some ((10 * digitVal a + digitVal b) * 60 + (10 * digitVal c + digitVal d))"
  using assms by (simp add: totalMinutes_def isDigit_not_colon toNumber_two)

lemma timeText_chars:
  assumes "h < 100" and "m < 100"
  shows "timeText h m = [digitChar (h div 10), digitChar (h mod 10), CHR '':'',
                         digitChar (m div 10), digitChar (m mod 10)]"
  using assms by (simp add: timeText_def padStart2_showNat)

lemma totalMinutes_timeText:
  assumes "h < 100" and "m < 100"
  shows "totalMinutes (timeText h m) = Some (int h * 60 + int m)"
proof -
  have "h div 10 < 10" and "m div 10 < 10"
    using assms by simp_all
  then show ?thesis
    using assms
    by (simp add: timeText_chars totalMinutes_digits isDigit_digitChar digitVal_digitChar ten_split)
qed

lemma trim_timeText:
  assumes "h < 100" and "m < 100"
  shows "trim (timeText h m) = timeText h m"
proof -
  have "h div 10 < 10"
    using assms by simp
  then show ?thesis
    using assms by (intro trim_id) (simp_all add: timeText_chars notSpace_digitChar)
qed

lemma timeText_not_Nil: "timeText h m \<noteq> []"
  by (simp add: timeText_def)

lemma isOvernight_update:
  "map isOvernight (timeSlots (updateScheduleDisplay st)) = map isOvernight (timeSlots st)"
  by (simp add: updateScheduleDisplay_slots formatSlot_keeps)

lemma addTimeBtn_click_missing:
  assumes "trim sv = [] \<or> trim ev = []"
  shows "addTimeBtn_click sv ev st = (Warning ''Please select both start and end times.'', st)"
  using assms by (auto simp: addTimeBtn_click_def Let_def)

lemma addTimeBtn_click_no_day:
  assumes "trim sv \<noteq> []" and "trim ev \<noteq> []" and "selectedDays st = []"
  shows "addTimeBtn_click sv ev st = (Warning ''Please select at least one day.'', st)"
  using assms by (simp add: addTimeBtn_click_def Let_def)

lemma addTimeBtn_click_times:
  assumes "h1 < 100" and "m1 < 100" and "h2 < 100" and "m2 < 100" and "selectedDays st \<noteq> []"
  shows "addTimeBtn_click (timeText h1 m1) (timeText h2 m2) st =
           (if 60 * h2 + m2 = 60 * h1 + m1
            then (Warning ''End time must be after start time.'', st)
            else (Added,
                  (addTimeSlot \<lparr>slot_id = ''slot_'' @ showNat (timeSlotCounter st),
                                days = selectedDays st,
                                startTime = timeText h1 m1, endTime = timeText h2 m2,
                                isOvernight = Some (60 * h2 + m2 < 60 * h1 + m1)\<rparr>
                     (st\<lparr>timeSlotCounter := Suc (timeSlotCounter st)\<rparr>))\<lparr>selectedDays := []\<rparr>))"
proof -
  have less: "numLess (totalMinutes (timeText h2 m2)) (totalMinutes (timeText h1 m1))
                = (60 * h2 + m2 < 60 * h1 + m1)"
    using assms by (simp add: numLess_def totalMinutes_timeText) linarith
  have le: "numLessEq (totalMinutes (timeText h2 m2)) (totalMinutes (timeText h1 m1))
                = (60 * h2 + m2 \<le> 60 * h1 + m1)"
    using assms by (simp add: numLessEq_def totalMinutes_timeText) linarith
  show ?thesis
    using assms
    by (auto simp: addTimeBtn_click_def Let_def trim_timeText timeText_not_Nil less le)
qed

subsection \<open>The conflict check\<close>

lemma checkScheduleConflicts_empty:
  "checkScheduleConflicts server [] st = (\<lparr>hasConflict = False, message = []\<rparr>, [], st)"
  by (simp add: checkScheduleConflicts_def)

lemma checkScheduleConflicts_failure:
  assumes "slots \<noteq> []"
    and "server (fst (formatSchedule st)) \<in> {FetchRejects, JsonRejects, BodyNull}"
  shows "checkScheduleConflicts server slots st
           = (\<lparr>hasConflict = False, message = ''Error checking schedule conflicts''\<rparr>,
              [fst (formatSchedule st)], snd (formatSchedule st))"
  using assms by (auto simp: checkScheduleConflicts_def Let_def split: prod.splits)

section \<open>Conversion between the 12-hour and the 24-hour form\<close>

text \<open>
  C4. \<^verbatim>\<open>formatTimeForSchedule\<close> maps 00:00, 12:00, 13:30 and 23:59 to 12:00 AM, 12:00 PM,
  1:30 PM and 11:59 PM, and \<^verbatim>\<open>parse12HourTime\<close> maps each of these back.
\<close>

theorem time_conversion_pairs:
  "formatTimeForSchedule ''00:00'' = ''12:00 AM'' \<and> parse12HourTime ''12:00 AM'' = ''00:00'' \<and>
   formatTimeForSchedule ''12:00'' = ''12:00 PM'' \<and> parse12HourTime ''12:00 PM'' = ''12:00'' \<and>
   formatTimeForSchedule ''13:30'' = ''1:30 PM'' \<and> parse12HourTime ''1:30 PM'' = ''13:30'' \<and>
   formatTimeForSchedule ''23:59'' = ''11:59 PM'' \<and> parse12HourTime ''11:59 PM'' = ''23:59''"
  by code_simp

section \<open>No range check on the hour\<close>

text \<open>
  C10. \<^verbatim>\<open>parse12HourTime\<close> takes any hour of one or two digits: for every hour from 13 to
  99 with \<^verbatim>\<open>PM\<close> it succeeds and returns the hour as it stands (13:30 PM gives 13:30),
  and for hour 0 with \<^verbatim>\<open>AM\<close> it returns 00 and the minutes; the minutes are any two
  digits.
\<close>

theorem parse12HourTime_no_hour_check:
  assumes "isDigit m1" and "isDigit m2"
  shows "(13 \<le> h \<and> h \<le> 99 \<longrightarrow>
            parse12HourTime (showNat h @ '':'' @ [m1, m2] @ '' PM'') = showNat h @ '':'' @ [m1, m2]) \<and>
         parse12HourTime (''0:'' @ [m1, m2] @ '' AM'') = ''00:'' @ [m1, m2] \<and>
         parse12HourTime ''13:30 PM'' = ''13:30''"
proof -
  have "parse12HourTime ''13:30 PM'' = ''13:30''"
    by code_simp
  then show ?thesis
    using assms parse12HourTime_PM_any [of h m1 m2] parse12HourTime_zero_AM [of m1 m2] by simp
qed

theorem parse12HourTime_no_hour_check_witness:
  "isDigit CHR ''4'' \<and> isDigit CHR ''5'' \<and> (13::nat) \<le> 99 \<and> (99::nat) \<le> 99 \<and>
   parse12HourTime ''99:45 PM'' = ''99:45'' \<and> parse12HourTime ''0:45 AM'' = ''00:45''"
proof -
  have d: "isDigit CHR ''4''" "isDigit CHR ''5''"
    by (simp_all add: isDigit_def)
  have s: "showNat 99 = ''99''"
    by code_simp
  show ?thesis
    using parse12HourTime_no_hour_check [OF d, of 99] d by (simp add: s)
qed

section \<open>A start time without AM or PM\<close>

text \<open>
  C9. An entry \<^verbatim>\<open><days> H:MM-H:MM AM|PM\<close>, with no AM or PM after the start time,
  matches the entry pattern (whose third capture is then undefined), whereas the same
  entry without AM or PM after the end time does not. Its start time then fails
  \<^verbatim>\<open>parse12HourTime\<close>, so the entry adds no slot and leaves the state as it was, and
  the entries before and after it are parsed as if it were not there.
\<close>

theorem start_without_ampm_is_skipped:
  assumes d: "list_all isLetter d" "d \<noteq> []"
    and h1: "list_all isDigit h1" "length h1 = 1 \<or> length h1 = 2"
    and m1: "isDigit a" "isDigit b"
    and h2: "list_all isDigit h2" "length h2 = 1 \<or> length h2 = 2"
    and m2: "isDigit c" "isDigit e"
    and ap: "ap = ''AM'' \<or> ap = ''PM''"
    and entry: "entry = d @ '' '' @ h1 @ '':'' @ [a, b] @ ''-'' @ h2 @ '':'' @ [c, e] @ '' '' @ ap"
  shows "match_entry entry = Some (d, h1 @ '':'' @ [a, b], None, h2 @ '':'' @ [c, e], ap) \<and>
         match_entry (d @ '' '' @ h1 @ '':'' @ [a, b] @ ''-'' @ h2 @ '':'' @ [c, e]) = None \<and>
         parse12HourTime (h1 @ '':'' @ [a, b]) = [] \<and>
         parseSlotStep st entry = st \<and>
         timeSlots (parseExistingSchedule entry st) = [] \<and>
         parseExistingSchedule (pre @ '','' @ entry @ '','' @ post) st
           = parseExistingSchedule (pre @ '','' @ post) st"
proof -
  note shape = d h1 m1 h2 m2
  have matched: "match_entry entry = Some (d, h1 @ '':'' @ [a, b], None, h2 @ '':'' @ [c, e], ap)"
    unfolding entry using shape ap by (rule match_entry_bare_start)
  have unmatched: "match_entry (d @ '' '' @ h1 @ '':'' @ [a, b] @ ''-'' @ h2 @ '':'' @ [c, e]) = None"
    using shape by (rule match_entry_no_end_ampm)
  have start: "parse12HourTime (h1 @ '':'' @ [a, b]) = []"
    using h1 m1 by (rule parse12HourTime_bare)
  have none: "parseEntry entry = None"
    unfolding entry using shape ap by (rule parseEntry_bare_start)
  have ne: "entry \<noteq> []"
    using d by (simp add: entry)
  have "\<not> isSpace (hd entry)"
    using d by (cases d) (simp_all add: entry isLetter_notSpace)
  moreover have "\<not> isSpace (last entry)"
    using ap by (auto simp: entry isSpace_def)
  ultimately have tr: "trim entry = entry"
    using ne by (intro trim_id)
  have nc: "CHR '','' \<notin> set entry"
    using d h1 h2 m1 m2 ap
    by (auto simp: entry dest: isDigit_not_comma no_comma_letters no_comma_digits)
  have alone: "timeSlots (parseExistingSchedule entry st) = []"
    using ne none by (simp add: parseExistingSchedule_def entries_single [OF nc tr ne] parseSlotStep_skip)
  show ?thesis
    using matched unmatched start alone parseSlotStep_skip [OF none]
      parseExistingSchedule_skip [OF none nc tr ne]
    by simp
qed

theorem start_without_ampm_is_skipped_witness:
  "list_all isLetter ''MW'' \<and> ''MW'' \<noteq> [] \<and>
   list_all isDigit ''9'' \<and> (length ''9'' = 1 \<or> length ''9'' = 2) \<and>
   isDigit CHR ''0'' \<and> isDigit CHR ''5'' \<and>
   list_all isDigit ''10'' \<and> (length ''10'' = 1 \<or> length ''10'' = 2) \<and>
   isDigit CHR ''3'' \<and> (''AM'' = ''AM'' \<or> ''AM'' = ''PM'') \<and>
   match_entry ''MW 9:05-10:30 AM'' = Some (''MW'', ''9:05'', None, ''10:30'', ''AM'') \<and>
   match_entry ''MW 9:05-10:30'' = None \<and>
   parse12HourTime ''9:05'' = [] \<and>
   parseSlotStep resetState ''MW 9:05-10:30 AM'' = resetState \<and>
   timeSlots (parseExistingSchedule ''MW 9:05-10:30 AM'' resetState) = [] \<and>
   parseExistingSchedule ''F 1:00 PM-2:00 PM,MW 9:05-10:30 AM,T 3:00 PM-4:00 PM'' resetState
     = parseExistingSchedule ''F 1:00 PM-2:00 PM,T 3:00 PM-4:00 PM'' resetState"
proof -
  have l: "list_all isLetter ''MW''"
    by (simp add: isLetter_def)
  have dg: "list_all isDigit ''9''" "list_all isDigit ''10''"
    "isDigit CHR ''0''" "isDigit CHR ''5''" "isDigit CHR ''3''"
    by (simp_all add: isDigit_def)
  show ?thesis
    using l dg
      start_without_ampm_is_skipped [of "''MW''" "''9''" "CHR ''0''" "CHR ''5''" "''10''"
        "CHR ''3''" "CHR ''0''" "''AM''" "''MW 9:05-10:30 AM''" resetState
        "''F 1:00 PM-2:00 PM''" "''T 3:00 PM-4:00 PM''"]
    by simp
qed

section \<open>Entries that do not parse\<close>

text \<open>
  C6. For every schedule string (not empty: the function returns at once on the empty
  one), the slots that \<^verbatim>\<open>parseExistingSchedule\<close> leaves are, in order, those of the
  entries that match the entry pattern and whose start and end time, put together from
  the captures, both pass \<^verbatim>\<open>parse12HourTime\<close>: each such slot has the days scanned from
  the first capture (the display update may reorder them) and the two parsed times. An
  entry that the pattern does not match, and an entry of which a time fails to parse,
  leaves the state as it was, and the entries after it are still parsed; the function is
  total. The string \<^verbatim>\<open>MWF 10:00 AM-12:00 PM, garbage-entry, TTh 1:00 PM-2:30 PM\<close> gives
  exactly two slots, and so does the same string with \<^verbatim>\<open>F 9:00-10:00 AM\<close> in the middle,
  which matches the pattern and fails on its start time.
\<close>

theorem resilient_parse:
  assumes "scheduleString \<noteq> []"
  shows "map (\<lambda>sl. (mset (days sl), startTime sl, endTime sl))
           (timeSlots (parseExistingSchedule scheduleString st))
         = List.map_filter
             (\<lambda>e. case match_entry e of
                None \<Rightarrow> None
              | Some (p1, p2, p3, p4, p5) \<Rightarrow>
                  (let s = parse12HourTime
                             (p2 @ (case p3 of None \<Rightarrow> [] | Some a \<Rightarrow> CHR '' '' # toUpperCase a));
                       t = parse12HourTime (p4 @ CHR '' '' # toUpperCase p5)
                   in if s = [] \<or> t = [] then None
                      else Some (mset (scanDays (toUpperCase p1)), s, t)))
             (entries scheduleString) \<and>
         (match_entry e = None \<longrightarrow> parseSlotStep st e = st) \<and>
         (match_entry e' = Some (p1, p2, p3, p4, p5) \<and>
          (parse12HourTime (p2 @ (case p3 of None \<Rightarrow> [] | Some a \<Rightarrow> CHR '' '' # toUpperCase a)) = []
           \<or> parse12HourTime (p4 @ CHR '' '' # toUpperCase p5) = []) \<longrightarrow>
            parseSlotStep st e' = st) \<and>
         timeSlots (parseExistingSchedule
             ''MWF 10:00 AM-12:00 PM, garbage-entry, TTh 1:00 PM-2:30 PM'' resetState)
         = [\<lparr>slot_id = ''slot_0'', days = [''M'', ''W'', ''F''], startTime = ''10:00'',
              endTime = ''12:00'', isOvernight = None\<rparr>,
            \<lparr>slot_id = ''slot_1'', days = [''T'', ''TH''], startTime = ''13:00'',
              endTime = ''14:30'', isOvernight = None\<rparr>] \<and>
         match_entry ''F 9:00-10:00 AM'' = Some (''F'', ''9:00'', None, ''10:00'', ''AM'') \<and>
         parse12HourTime ''9:00'' = [] \<and>
         timeSlots (parseExistingSchedule
             ''MWF 10:00 AM-12:00 PM, F 9:00-10:00 AM, TTh 1:00 PM-2:30 PM'' resetState)
         = [\<lparr>slot_id = ''slot_0'', days = [''M'', ''W'', ''F''], startTime = ''10:00'',
              endTime = ''12:00'', isOvernight = None\<rparr>,
            \<lparr>slot_id = ''slot_1'', days = [''T'', ''TH''], startTime = ''13:00'',
              endTime = ''14:30'', isOvernight = None\<rparr>]"
proof (intro conjI impI)
  have "map slotKey (timeSlots (parseExistingSchedule scheduleString st))
          = map (\<lambda>(ds, s, t). (mset ds, s, t)) (List.map_filter parseEntry (entries scheduleString))"
    using assms by (simp add: parseExistingSchedule_def slotKey_foldl)
  moreover have "slotKey = (\<lambda>sl. (mset (days sl), startTime sl, endTime sl))"
    by (rule ext) (simp add: slotKey_def)
  ultimately show "map (\<lambda>sl. (mset (days sl), startTime sl, endTime sl))
           (timeSlots (parseExistingSchedule scheduleString st))
         = List.map_filter
             (\<lambda>e. case match_entry e of
                None \<Rightarrow> None
              | Some (p1, p2, p3, p4, p5) \<Rightarrow>
                  (let s = parse12HourTime
                             (p2 @ (case p3 of None \<Rightarrow> [] | Some a \<Rightarrow> CHR '' '' # toUpperCase a));
                       t = parse12HourTime (p4 @ CHR '' '' # toUpperCase p5)
                   in if s = [] \<or> t = [] then None
                      else Some (mset (scanDays (toUpperCase p1)), s, t)))
             (entries scheduleString)"
    by (simp only: map_map_filter parseEntry_key)
next
  assume "match_entry e = None"
  then have "parseEntry e = None"
    by (rule parseEntry_unmatched)
  then show "parseSlotStep st e = st"
    by (rule parseSlotStep_skip)
next
  assume "match_entry e' = Some (p1, p2, p3, p4, p5) \<and>
          (parse12HourTime (p2 @ (case p3 of None \<Rightarrow> [] | Some a \<Rightarrow> CHR '' '' # toUpperCase a)) = []
           \<or> parse12HourTime (p4 @ CHR '' '' # toUpperCase p5) = [])"
  then show "parseSlotStep st e' = st"
    using parseSlotStep_time_fails by blast
next
  show "timeSlots (parseExistingSchedule
             ''MWF 10:00 AM-12:00 PM, garbage-entry, TTh 1:00 PM-2:30 PM'' resetState)
         = [\<lparr>slot_id = ''slot_0'', days = [''M'', ''W'', ''F''], startTime = ''10:00'',
              endTime = ''12:00'', isOvernight = None\<rparr>,
            \<lparr>slot_id = ''slot_1'', days = [''T'', ''TH''], startTime = ''13:00'',
              endTime = ''14:30'', isOvernight = None\<rparr>]"
    by code_simp
  show "match_entry ''F 9:00-10:00 AM'' = Some (''F'', ''9:00'', None, ''10:00'', ''AM'')"
    by code_simp
  show "parse12HourTime ''9:00'' = []"
    by code_simp
  show "timeSlots (parseExistingSchedule
             ''MWF 10:00 AM-12:00 PM, F 9:00-10:00 AM, TTh 1:00 PM-2:30 PM'' resetState)
         = [\<lparr>slot_id = ''slot_0'', days = [''M'', ''W'', ''F''], startTime = ''10:00'',
              endTime = ''12:00'', isOvernight = None\<rparr>,
            \<lparr>slot_id = ''slot_1'', days = [''T'', ''TH''], startTime = ''13:00'',
              endTime = ''14:30'', isOvernight = None\<rparr>]"
    by code_simp
qed

theorem resilient_parse_witness:
  "''M 9:00 AM-10:00 AM,nonsense,F 9:00-10:00 AM,T 1:00 PM-2:00 PM'' \<noteq> [] \<and>
   match_entry ''nonsense'' = None \<and>
   parseSlotStep resetState ''nonsense'' = resetState \<and>
   match_entry ''F 9:00-10:00 AM'' = Some (''F'', ''9:00'', None, ''10:00'', ''AM'') \<and>
   parse12HourTime ''9:00'' = [] \<and>
   parseSlotStep resetState ''F 9:00-10:00 AM'' = resetState \<and>
   map (\<lambda>sl. (mset (days sl), startTime sl, endTime sl))
     (timeSlots (parseExistingSchedule
        ''M 9:00 AM-10:00 AM,nonsense,F 9:00-10:00 AM,T 1:00 PM-2:00 PM'' resetState))
   = [({#''M''#}, ''09:00'', ''10:00''), ({#''T''#}, ''13:00'', ''14:00'')]"
proof -
  let ?s = "''M 9:00 AM-10:00 AM,nonsense,F 9:00-10:00 AM,T 1:00 PM-2:00 PM''"
  have ne: "?s \<noteq> []"
    by simp
  have bad: "match_entry ''nonsense'' = None"
    by code_simp
  have m: "match_entry ''F 9:00-10:00 AM'' = Some (''F'', ''9:00'', None, ''10:00'', ''AM'')"
    by code_simp
  have f: "parse12HourTime ''9:00'' = []"
    by code_simp
  have es: "List.map_filter parseEntry (entries ?s)
              = [([''M''], ''09:00'', ''10:00''), ([''T''], ''13:00'', ''14:00'')]"
    by code_simp
  note inst = resilient_parse [OF ne, where st = resetState and e = "''nonsense''"
      and e' = "''F 9:00-10:00 AM''" and ?p1.0 = "''F''" and ?p2.0 = "''9:00''" and ?p3.0 = None
      and ?p4.0 = "''10:00''" and ?p5.0 = "''AM''"]
  have keys: "map (\<lambda>sl. (mset (days sl), startTime sl, endTime sl))
     (timeSlots (parseExistingSchedule ?s resetState))
   = [({#''M''#}, ''09:00'', ''10:00''), ({#''T''#}, ''13:00'', ''14:00'')]"
    using inst [THEN conjunct1] es
    by (simp only: parseEntry_key [symmetric] map_map_filter [symmetric]) simp
  have s1: "parseSlotStep resetState ''nonsense'' = resetState"
    using inst bad by blast
  have s2: "parseSlotStep resetState ''F 9:00-10:00 AM'' = resetState"
    using inst m f by simp
  show ?thesis
    using ne bad m f keys s1 s2 by simp
qed

section \<open>The day codes that the parser produces\<close>

text \<open>
  C5. The scan of the day letters takes \<^verbatim>\<open>TH\<close> as one day, but the day it pushes is
  the upper-case substring \<^verbatim>\<open>TH\<close>: the entry \<^verbatim>\<open>TH 9:00 AM-10:00 AM\<close> gives one slot
  whose only day is \<^verbatim>\<open>TH\<close>, which is not the day code \<^verbatim>\<open>Th\<close> of the \<^verbatim>\<open>dayOrder\<close> table.
\<close>

theorem two_letter_day_keeps_upper_case:
  "scanDays (toUpperCase ''TH'') = [''TH''] \<and>
   timeSlots (parseExistingSchedule ''TH 9:00 AM-10:00 AM'' resetState)
     = [\<lparr>slot_id = ''slot_0'', days = [''TH''], startTime = ''09:00'', endTime = ''10:00'',
          isOvernight = None\<rparr>]"
  by code_simp

text \<open>
  C1. A slot added by the click handler with the day \<^verbatim>\<open>Th\<close>, 09:00 to 10:00, is written
  as \<^verbatim>\<open>Th 9:00 AM-10:00 AM\<close>; parsing that string gives a slot whose day is \<^verbatim>\<open>TH\<close>, so
  the days of the round trip are not those of the slot.
\<close>

theorem round_trip_changes_day_code:
  "addTimeBtn_click ''09:00'' ''10:00'' (resetState\<lparr>selectedDays := [''Th'']\<rparr>)
     = (Added, \<lparr>timeSlots = [\<lparr>slot_id = ''slot_0'', days = [''Th''], startTime = ''09:00'',
                                endTime = ''10:00'', isOvernight = Some False\<rparr>],
                 selectedDays = [], timeSlotCounter = 1, domPresent = True,
                 scheduleField = ''Th 9:00 AM-10:00 AM''\<rparr>) \<and>
   fst (formatSchedule (snd (addTimeBtn_click ''09:00'' ''10:00'' (resetState\<lparr>selectedDays := [''Th'']\<rparr>))))
     = ''Th 9:00 AM-10:00 AM'' \<and>
   map (\<lambda>sl. (sortDays (days sl), startTime sl, endTime sl))
     (timeSlots (snd (addTimeBtn_click ''09:00'' ''10:00'' (resetState\<lparr>selectedDays := [''Th'']\<rparr>))))
     = [([''Th''], ''09:00'', ''10:00'')] \<and>
   map (\<lambda>sl. (sortDays (days sl), startTime sl, endTime sl))
     (timeSlots (parseExistingSchedule
        (fst (formatSchedule (snd (addTimeBtn_click ''09:00'' ''10:00'' (resetState\<lparr>selectedDays := [''Th'']\<rparr>)))))
        (snd (addTimeBtn_click ''09:00'' ''10:00'' (resetState\<lparr>selectedDays := [''Th'']\<rparr>)))))
     = [([''TH''], ''09:00'', ''10:00'')]"
  by code_simp

section \<open>The order of the days in the schedule string\<close>



section \<open>The formatter sorts in place\<close>

text \<open>
  C2, as the claim states it, fails: \<^verbatim>\<open>slot.days.sort(...)\<close> sorts the array of the slot
  itself, so a slot whose days were added as W, M has the days M, W after the call.
\<close>

theorem formatSchedule_reorders_days:
  "map days (timeSlots (resetState\<lparr>timeSlots :=
      [\<lparr>slot_id = ''slot_0'', days = [''W'', ''M''], startTime = ''09:00'', endTime = ''10:00'',
         isOvernight = Some False\<rparr>]\<rparr>)) = [[''W'', ''M'']] \<and>
   map days (timeSlots (snd (formatSchedule (resetState\<lparr>timeSlots :=
      [\<lparr>slot_id = ''slot_0'', days = [''W'', ''M''], startTime = ''09:00'', endTime = ''10:00'',
         isOvernight = Some False\<rparr>]\<rparr>)))) = [[''M'', ''W'']]"
  by code_simp

text \<open>
  C2, amended. \<^verbatim>\<open>formatSchedule\<close> changes nothing of the state but the slot list, and
  of a slot nothing but its \<^verbatim>\<open>days\<close>, which hold the same days after the call as before.
  For slots whose days are among the seven day codes the call leaves the days of every
  slot sorted by their place in the \<^verbatim>\<open>dayOrder\<close> table (when no day occurs twice: the
  days of the slot in the order M, T, W, Th, F, S, Su), and a second call returns the
  same string as the first and changes nothing any more.
\<close>

theorem formatSchedule_sorts_days_in_place:
  "snd (formatSchedule st) = st\<lparr>timeSlots := timeSlots (snd (formatSchedule st))\<rparr> \<and>
   list_all2 (\<lambda>sl sl'. sl' = sl\<lparr>days := days sl'\<rparr> \<and> mset (days sl') = mset (days sl))
     (timeSlots st) (timeSlots (snd (formatSchedule st))) \<and>
   ((\<forall>sl\<in>set (timeSlots st). \<forall>d\<in>set (days sl). dayOrder d \<noteq> None) \<longrightarrow>
      list_all2 (\<lambda>sl sl'. sorted (map dayIndex (days sl')) \<and>
                   (distinct (days sl) \<longrightarrow>
                      days sl' = filter (\<lambda>d. d \<in> set (days sl))
                                   [''M'', ''T'', ''W'', ''Th'', ''F'', ''S'', ''Su'']))
        (timeSlots st) (timeSlots (snd (formatSchedule st))) \<and>
      fst (formatSchedule (snd (formatSchedule st))) = fst (formatSchedule st) \<and>
      snd (formatSchedule (snd (formatSchedule st))) = snd (formatSchedule st))"
proof (intro conjI impI)
  show "snd (formatSchedule st) = st\<lparr>timeSlots := timeSlots (snd (formatSchedule st))\<rparr>"
    by (rule formatSchedule_rest)
  show "list_all2 (\<lambda>sl sl'. sl' = sl\<lparr>days := days sl'\<rparr> \<and> mset (days sl') = mset (days sl))
     (timeSlots st) (timeSlots (snd (formatSchedule st)))"
    by (rule formatSchedule_same_days)
next
  assume keys: "\<forall>sl\<in>set (timeSlots st). \<forall>d\<in>set (days sl). dayOrder d \<noteq> None"
  then show "list_all2 (\<lambda>sl sl'. sorted (map dayIndex (days sl')) \<and>
                   (distinct (days sl) \<longrightarrow>
                      days sl' = filter (\<lambda>d. d \<in> set (days sl))
                                   [''M'', ''T'', ''W'', ''Th'', ''F'', ''S'', ''Su'']))
        (timeSlots st) (timeSlots (snd (formatSchedule st)))"
    by (rule formatSchedule_week_order)
  show "fst (formatSchedule (snd (formatSchedule st))) = fst (formatSchedule st)"
    and "snd (formatSchedule (snd (formatSchedule st))) = snd (formatSchedule st)"
    by (simp_all only: formatSchedule_again [OF keys])
qed

theorem formatSchedule_sorts_days_in_place_witness:
  "dayOrder ''W'' \<noteq> None \<and> dayOrder ''M'' \<noteq> None \<and> distinct [''W'', ''M''] \<and>
   map days (timeSlots (snd (formatSchedule (resetState\<lparr>timeSlots :=
      [\<lparr>slot_id = ''slot_0'', days = [''W'', ''M''], startTime = ''09:00'', endTime = ''10:00'',
         isOvernight = Some False\<rparr>]\<rparr>)))) = [[''M'', ''W'']] \<and>
   fst (formatSchedule (snd (formatSchedule (resetState\<lparr>timeSlots :=
      [\<lparr>slot_id = ''slot_0'', days = [''W'', ''M''], startTime = ''09:00'', endTime = ''10:00'',
         isOvernight = Some False\<rparr>]\<rparr>)))) = ''MW 9:00 AM-10:00 AM''"
proof -
  let ?st = "resetState\<lparr>timeSlots :=
      [\<lparr>slot_id = ''slot_0'', days = [''W'', ''M''], startTime = ''09:00'', endTime = ''10:00'',
         isOvernight = Some False\<rparr>]\<rparr>"
  have keys: "\<forall>sl\<in>set (timeSlots ?st). \<forall>d\<in>set (days sl). dayOrder d \<noteq> None"
    by (simp add: dayOrder_def)
  have first: "fst (formatSchedule ?st) = ''MW 9:00 AM-10:00 AM''"
    by code_simp
  note inst = formatSchedule_sorts_days_in_place [of ?st, THEN conjunct2, THEN conjunct2, THEN mp, OF keys]
  have "map days (timeSlots (snd (formatSchedule ?st))) = [[''M'', ''W'']]"
    using inst [THEN conjunct1] by (auto simp: list_all2_Cons1)
  moreover have "fst (formatSchedule (snd (formatSchedule ?st))) = ''MW 9:00 AM-10:00 AM''"
    using inst [THEN conjunct2, THEN conjunct1] first by simp
  ultimately show ?thesis
    using keys by simp
qed

section \<open>Rejection of an invalid add\<close>

text \<open>
  C3. The click handler shows a warning and leaves the state, and so the slot list, as
  it was exactly when a time is missing, or no day is selected, or the slot is not
  flagged overnight and its end is not after its start; it throws nothing. The flag is
  the handler's own \<^verbatim>\<open>isOvernight\<close>, true when the end is before the start, and it is
  the flag that an accepted slot carries: so of two times that are both present, only
  equal ones are rejected. With no day selected, 09:00 to 10:00 is rejected. With the
  day M, 10:00 to 09:00 is rejected just when it is not flagged overnight; the handler
  does flag it, and adds it. Times are the values of a time field, hour below 24 and
  minute below 60.
\<close>

theorem invalid_add_is_rejected:
  assumes "h1 < 24" and "m1 < 60" and "h2 < 24" and "m2 < 60"
  shows "(trim sv = [] \<or> trim ev = [] \<longrightarrow>
            addTimeBtn_click sv ev st = (Warning ''Please select both start and end times.'', st)) \<and>
         (trim sv \<noteq> [] \<and> trim ev \<noteq> [] \<and> selectedDays st = [] \<longrightarrow>
            addTimeBtn_click sv ev st = (Warning ''Please select at least one day.'', st)) \<and>
         (fst (addTimeBtn_click (timeText h1 m1) (timeText h2 m2) st) \<noteq> Added)
           = (selectedDays st = [] \<or>
              (\<not> 60 * h2 + m2 < 60 * h1 + m1 \<and> 60 * h2 + m2 \<le> 60 * h1 + m1)) \<and>
         (fst (addTimeBtn_click (timeText h1 m1) (timeText h2 m2) st) \<noteq> Added \<longrightarrow>
            snd (addTimeBtn_click (timeText h1 m1) (timeText h2 m2) st) = st) \<and>
         (fst (addTimeBtn_click (timeText h1 m1) (timeText h2 m2) st) = Added \<longrightarrow>
            map isOvernight (timeSlots (snd (addTimeBtn_click (timeText h1 m1) (timeText h2 m2) st)))
              = map isOvernight (timeSlots st) @ [Some (60 * h2 + m2 < 60 * h1 + m1)]) \<and>
         addTimeBtn_click ''09:00'' ''10:00'' (st\<lparr>selectedDays := []\<rparr>)
           = (Warning ''Please select at least one day.'', st\<lparr>selectedDays := []\<rparr>) \<and>
         (fst (addTimeBtn_click ''10:00'' ''09:00'' (st\<lparr>selectedDays := [''M'']\<rparr>)) \<noteq> Added)
           = (\<not> numLess (totalMinutes ''09:00'') (totalMinutes ''10:00''))"
proof -
  let ?r = "addTimeBtn_click (timeText h1 m1) (timeText h2 m2) st"
  have bounds: "h1 < 100" "m1 < 100" "h2 < 100" "m2 < 100"
    using assms by simp_all
  have present: "trim (timeText h1 m1) \<noteq> []" "trim (timeText h2 m2) \<noteq> []"
    using bounds by (simp_all add: trim_timeText timeText_not_Nil)
  have no_day: "?r = (Warning ''Please select at least one day.'', st)" if "selectedDays st = []"
    using present that by (rule addTimeBtn_click_no_day)
  have with_day: "?r = (if 60 * h2 + m2 = 60 * h1 + m1
            then (Warning ''End time must be after start time.'', st)
            else (Added,
                  (addTimeSlot \<lparr>slot_id = ''slot_'' @ showNat (timeSlotCounter st),
                                days = selectedDays st,
                                startTime = timeText h1 m1, endTime = timeText h2 m2,
                                isOvernight = Some (60 * h2 + m2 < 60 * h1 + m1)\<rparr>
                     (st\<lparr>timeSlotCounter := Suc (timeSlotCounter st)\<rparr>))\<lparr>selectedDays := []\<rparr>))"
    if "selectedDays st \<noteq> []"
    using bounds that by (rule addTimeBtn_click_times)
  have iff: "(fst ?r \<noteq> Added)
           = (selectedDays st = [] \<or>
              (\<not> 60 * h2 + m2 < 60 * h1 + m1 \<and> 60 * h2 + m2 \<le> 60 * h1 + m1))"
  proof (cases "selectedDays st = []")
    case True
    then show ?thesis by (simp add: no_day)
  next
    case False
    then show ?thesis by (auto simp: with_day)
  qed
  have atomic: "snd ?r = st" if "fst ?r \<noteq> Added"
  proof (cases "selectedDays st = []")
    case True
    then show ?thesis by (simp add: no_day)
  next
    case False
    with that show ?thesis by (simp add: with_day split: if_splits)
  qed
  have flag: "map isOvernight (timeSlots (snd ?r))
              = map isOvernight (timeSlots st) @ [Some (60 * h2 + m2 < 60 * h1 + m1)]"
    if "fst ?r = Added"
  proof (cases "selectedDays st = []")
    case True
    with that show ?thesis by (simp add: no_day)
  next
    case False
    with that show ?thesis
      by (simp add: with_day addTimeSlot_def isOvernight_update split: if_splits)
  qed
  have tr: "trim ''09:00'' \<noteq> []" "trim ''10:00'' \<noteq> []"
    by code_simp+
  have example: "addTimeBtn_click ''09:00'' ''10:00'' (st\<lparr>selectedDays := []\<rparr>)
           = (Warning ''Please select at least one day.'', st\<lparr>selectedDays := []\<rparr>)"
    using tr by (rule addTimeBtn_click_no_day) simp
  have texts: "timeText 10 0 = ''10:00''" "timeText 9 0 = ''09:00''"
    by code_simp+
  have "fst (addTimeBtn_click (timeText 10 0) (timeText 9 0) (st\<lparr>selectedDays := [''M'']\<rparr>)) = Added"
    by (simp add: addTimeBtn_click_times)
  moreover have "numLess (totalMinutes (timeText 9 0)) (totalMinutes (timeText 10 0))"
    by (simp add: totalMinutes_timeText numLess_def)
  ultimately have overnight:
    "(fst (addTimeBtn_click ''10:00'' ''09:00'' (st\<lparr>selectedDays := [''M'']\<rparr>)) \<noteq> Added)
           = (\<not> numLess (totalMinutes ''09:00'') (totalMinutes ''10:00''))"
    by (simp add: texts)
  show ?thesis
    using addTimeBtn_click_missing [of sv ev st] addTimeBtn_click_no_day [of sv ev st]
      iff atomic flag example overnight
    by blast
qed

theorem invalid_add_is_rejected_witness:
  "(10::nat) < 24 \<and> (0::nat) < 60 \<and> (9::nat) < 24 \<and>
   trim [] = [] \<and>
   addTimeBtn_click [] ''10:00'' (resetState\<lparr>selectedDays := [''M'']\<rparr>)
     = (Warning ''Please select both start and end times.'', resetState\<lparr>selectedDays := [''M'']\<rparr>) \<and>
   trim ''09:00'' \<noteq> [] \<and> trim ''10:00'' \<noteq> [] \<and> selectedDays resetState = [] \<and>
   addTimeBtn_click ''09:00'' ''10:00'' resetState
     = (Warning ''Please select at least one day.'', resetState) \<and>
   fst (addTimeBtn_click ''10:00'' ''10:00'' (resetState\<lparr>selectedDays := [''M'']\<rparr>)) \<noteq> Added \<and>
   snd (addTimeBtn_click ''10:00'' ''10:00'' (resetState\<lparr>selectedDays := [''M'']\<rparr>))
     = resetState\<lparr>selectedDays := [''M'']\<rparr> \<and>
   fst (addTimeBtn_click ''10:00'' ''09:00'' (resetState\<lparr>selectedDays := [''M'']\<rparr>)) = Added \<and>
   map isOvernight (timeSlots (snd
       (addTimeBtn_click ''10:00'' ''09:00'' (resetState\<lparr>selectedDays := [''M'']\<rparr>))))
     = [Some True]"
proof -
  let ?S = "resetState\<lparr>selectedDays := [''M'']\<rparr>"
  have b: "(10::nat) < 24" "(0::nat) < 60" "(9::nat) < 24"
    by simp_all
  have t: "timeText 10 0 = ''10:00''" "timeText 9 0 = ''09:00''"
    by code_simp+
  have tr: "trim [] = []" "trim ''09:00'' \<noteq> []" "trim ''10:00'' \<noteq> []"
    by code_simp+
  have s: "selectedDays resetState = []" "selectedDays ?S \<noteq> []" "timeSlots ?S = []"
    by (simp_all add: resetState_def)
  note same = invalid_add_is_rejected [OF b(1) b(2) b(1) b(2), where sv = "[]" and ev = "''10:00''" and st = ?S]
  note none = invalid_add_is_rejected [OF b(1) b(2) b(1) b(2), where sv = "''09:00''" and ev = "''10:00''" and st = resetState]
  note night = invalid_add_is_rejected [OF b(1) b(2) b(3) b(2), where sv = "[]" and ev = "[]" and st = ?S]
  have 1: "addTimeBtn_click [] ''10:00'' ?S = (Warning ''Please select both start and end times.'', ?S)"
    using same tr by blast
  have 2: "addTimeBtn_click ''09:00'' ''10:00'' resetState = (Warning ''Please select at least one day.'', resetState)"
    using none tr s by blast
  have 3: "fst (addTimeBtn_click ''10:00'' ''10:00'' ?S) \<noteq> Added"
    using same s by (simp add: t)
  have 4: "snd (addTimeBtn_click ''10:00'' ''10:00'' ?S) = ?S"
    using same 3 by (simp add: t)
  have 5: "fst (addTimeBtn_click ''10:00'' ''09:00'' ?S) = Added"
    using night s by (simp add: t)
  have 6: "map isOvernight (timeSlots (snd (addTimeBtn_click ''10:00'' ''09:00'' ?S))) = [Some True]"
    using night 5 s by (simp add: t)
  show ?thesis
    using b tr s 1 2 3 4 5 6 by simp
qed

section \<open>The conflict check fails open\<close>

text \<open>
  C8. With an empty slot list \<^verbatim>\<open>checkScheduleConflicts\<close> returns no conflict and the
  empty message and posts nothing. With slots, when \<^verbatim>\<open>fetch\<close> rejects or the body of
  the response cannot be read, it returns no conflict together with the message
  \<^verbatim>\<open>Error checking schedule conflicts\<close>, after its one request: the failure does not
  reach the caller.
\<close>

theorem conflict_check_fails_open:
  "checkScheduleConflicts server [] st = (\<lparr>hasConflict = False, message = []\<rparr>, [], st) \<and>
   (slots \<noteq> [] \<and> server (fst (formatSchedule st)) \<in> {FetchRejects, JsonRejects, BodyNull} \<longrightarrow>
      fst (checkScheduleConflicts server slots st)
        = \<lparr>hasConflict = False, message = ''Error checking schedule conflicts''\<rparr> \<and>
      fst (snd (checkScheduleConflicts server slots st)) = [fst (formatSchedule st)])"
  using checkScheduleConflicts_empty [of server st]
    checkScheduleConflicts_failure [of slots server st]
  by simp

theorem conflict_check_fails_open_witness:
  "[\<lparr>slot_id = ''slot_0'', days = [''M''], startTime = ''09:00'', endTime = ''10:00'',
      isOvernight = Some False\<rparr>] \<noteq> [] \<and>
   (\<lambda>body. JsonRejects) (fst (formatSchedule (resetState\<lparr>timeSlots :=
      [\<lparr>slot_id = ''slot_0'', days = [''M''], startTime = ''09:00'', endTime = ''10:00'',
         isOvernight = Some False\<rparr>]\<rparr>))) \<in> {FetchRejects, JsonRejects, BodyNull} \<and>
   fst (checkScheduleConflicts (\<lambda>body. JsonRejects)
      [\<lparr>slot_id = ''slot_0'', days = [''M''], startTime = ''09:00'', endTime = ''10:00'',
         isOvernight = Some False\<rparr>]
      (resetState\<lparr>timeSlots :=
      [\<lparr>slot_id = ''slot_0'', days = [''M''], startTime = ''09:00'', endTime = ''10:00'',
         isOvernight = Some False\<rparr>]\<rparr>))
     = \<lparr>hasConflict = False, message = ''Error checking schedule conflicts''\<rparr>"
  using conflict_check_fails_open [of "\<lambda>body. JsonRejects"
      "resetState\<lparr>timeSlots :=
      [\<lparr>slot_id = ''slot_0'', days = [''M''], startTime = ''09:00'', endTime = ''10:00'',
         isOvernight = Some False\<rparr>]\<rparr>"
      "[\<lparr>slot_id = ''slot_0'', days = [''M''], startTime = ''09:00'', endTime = ''10:00'',
         isOvernight = Some False\<rparr>]"]
  by simp

end
